theory Spec2Isabelle
  imports Complex_Main
begin

section \<open>Optix: a gradient-based optimizer\<close>

text \<open>
  The development embeds the parts of the two generations of the optimizer, the package
  module \<^verbatim>\<open>optix/optix.py\<close> and the older single-file module \<^verbatim>\<open>optix.py\<close>, that decide
  the properties stated below. Python floats are idealised as HOL reals wherever only
  comparisons and field arithmetic are involved; a value that may be not-a-number is of
  type \<open>fval\<close>. Exceptions are values of type \<open>py_error\<close>.
\<close>

datatype py_error =
    IOError string
  | ValueError string
  | TypeError string
  | UnboundLocalError string
  | AttributeError string
  | ZeroDivisionError
  | IndexError
  | LinAlgError
  | NonFinite

text \<open>
  \<open>NonFinite\<close> is not an exception of the program: it marks the places where a division of
  the array library by zero only warns and goes on with an infinite or not-a-number
  value, which the reals do not have. The model stops there.
\<close>

subsection \<open>The constraint-list builder\<close>

text \<open>
  A caller-supplied constraint is a dictionary with the keys \<^verbatim>\<open>type\<close>, \<^verbatim>\<open>fun\<close> and,
  optionally, \<^verbatim>\<open>grad\<close>. The adapter class \<^verbatim>\<open>Constraint\<close> lives in a module that is not
  part of the sources at hand; its constructor is taken to store the type tag, the
  callable and the gradient it is given.
\<close>

record constraint_spec =
  spec_type :: string
  spec_fun :: "real list \<Rightarrow> real"
  spec_grad :: "(real list \<Rightarrow> real list) option"

record constraint_adapter =
  cstr_type :: string
  cstr_fun :: "real list \<Rightarrow> real"
  cstr_grad :: "(real list \<Rightarrow> real list) option"

definition Constraint :: "constraint_spec \<Rightarrow> constraint_adapter" where
  "Constraint c = \<lparr>cstr_type = spec_type c, cstr_fun = spec_fun c, cstr_grad = spec_grad c\<rparr>"

text \<open>
  The first loop of \<^verbatim>\<open>get_constraints\<close>: it appends an adapter for every entry tagged
  \<^verbatim>\<open>"ineq"\<close> and counts them. The accumulator is the pair of \<^verbatim>\<open>g\<close> and \<^verbatim>\<open>n_ineq_cstr\<close>.
\<close>

fun ineq_pass :: "constraint_spec list \<Rightarrow> constraint_adapter list \<Rightarrow> nat \<Rightarrow>
    constraint_adapter list \<times> nat" where
  "ineq_pass [] g n_ineq_cstr = (g, n_ineq_cstr)"
| "ineq_pass (c # cs) g n_ineq_cstr =
     (if spec_type c = ''ineq''
      then ineq_pass cs (g @ [Constraint c]) (n_ineq_cstr + 1)
      else ineq_pass cs g n_ineq_cstr)"

text \<open>The second loop appends an adapter for every entry tagged \<^verbatim>\<open>"eq"\<close>.\<close>

fun eq_pass :: "constraint_spec list \<Rightarrow> constraint_adapter list \<Rightarrow> constraint_adapter list" where
  "eq_pass [] g = g"
| "eq_pass (c # cs) g =
     (if spec_type c = ''eq'' then eq_pass cs (g @ [Constraint c]) else eq_pass cs g)"

text \<open>
  \<^verbatim>\<open>get_constraints(constraints, pool, queue, settings)\<close> returns the triple
  \<^verbatim>\<open>(g, n_cstr, n_ineq_cstr)\<close>. The argument is \<open>None\<close> when the caller gave no
  \<^verbatim>\<open>constraints\<close> option; then \<^verbatim>\<open>g\<close> is Python's \<^verbatim>\<open>None\<close> as well.
\<close>

definition get_constraints ::
    "constraint_spec list option \<Rightarrow> constraint_adapter list option \<times> nat \<times> nat" where
  "get_constraints constraints =
     (case constraints of
        Some cs \<Rightarrow>
          (let n_cstr = length cs;
               (g, n_ineq_cstr) = ineq_pass cs [] 0;
               g = eq_pass cs g
           in (Some g, n_cstr, n_ineq_cstr))
      | None \<Rightarrow> (None, 0, 0))"

subsection \<open>The binding set of a GRG iteration\<close>

text \<open>
  \<^verbatim>\<open>_grg\<close> marks an inequality constraint as binding when its value is at most
  \<^verbatim>\<open>cstr_tol\<close>; the slice \<^verbatim>\<open>g0[:n_ineq_cstr]\<close> is \<open>take\<close>, and the equality constraints
  contribute \<^verbatim>\<open>n_cstr - n_ineq_cstr\<close> entries \<^verbatim>\<open>True\<close> (none when the difference is negative,
  as with \<^verbatim>\<open>range\<close>). \<^verbatim>\<open>np.reshape\<close> to \<^verbatim>\<open>(n_cstr, 1)\<close> raises unless the list has
  \<^verbatim>\<open>n_cstr\<close> entries.
\<close>

definition binding_flags :: "real list \<Rightarrow> nat \<Rightarrow> nat \<Rightarrow> real \<Rightarrow> py_error + bool list" where
  "binding_flags g0 n_cstr n_ineq_cstr tol =
     (let flags = map (\<lambda>v. v \<le> tol) (take n_ineq_cstr g0)
                  @ replicate (n_cstr - n_ineq_cstr) True
      in if length flags = n_cstr then Inr flags
         else Inl (ValueError ''cannot reshape array''))"

text \<open>\<^verbatim>\<open>sum(cstr_b)\<close>: the number of entries that are \<^verbatim>\<open>True\<close>.\<close>

definition n_true :: "bool list \<Rightarrow> nat" where
  "n_true bs = length (filter (\<lambda>b. b) bs)"

text \<open>
  The loop \<^verbatim>\<open>for i in range(n_cstr)\<close> that un-marks binding constraints: \<open>unbound\<close> is the
  counter of the source, \<open>excess\<close> is \<^verbatim>\<open>n_binding - n_vars\<close>, and the list is what is left
  to scan.
\<close>

fun unbind :: "nat \<Rightarrow> nat \<Rightarrow> bool list \<Rightarrow> bool list" where
  "unbind unbound excess [] = []"
| "unbind unbound excess (b # bs) =
     (if b \<and> unbound < excess
      then False # unbind (unbound + 1) excess bs
      else b # unbind unbound excess bs)"

text \<open>
  The binding set as \<^verbatim>\<open>_grg\<close> uses it after the adjustment, with the final
  \<^verbatim>\<open>n_binding\<close>. The count is \<^verbatim>\<open>np.asscalar(sum(cstr_b))\<close>, and later
  \<^verbatim>\<open>sum(cstr_b).item()\<close>, with the built-in \<^verbatim>\<open>sum\<close>, which adds the rows of the array to the
  integer \<^verbatim>\<open>0\<close>. For an array without rows (\<^verbatim>\<open>n_cstr = 0\<close>) the sum is that Python integer,
  which has no method \<^verbatim>\<open>item\<close>: the call raises \<^verbatim>\<open>AttributeError\<close>.
\<close>

definition grg_binding :: "real list \<Rightarrow> nat \<Rightarrow> nat \<Rightarrow> nat \<Rightarrow> real \<Rightarrow> py_error + (bool list \<times> nat)" where
  "grg_binding g0 n_vars n_cstr n_ineq_cstr tol =
     (case binding_flags g0 n_cstr n_ineq_cstr tol of
        Inl e \<Rightarrow> Inl e
      | Inr cstr_b \<Rightarrow>
          if cstr_b = [] then Inl (AttributeError ''int object has no attribute item'')
          else
           (let n_binding = n_true cstr_b;
                cstr_b = (if n_binding > n_vars
                          then unbind 0 (n_binding - n_vars) cstr_b else cstr_b)
            in Inr (cstr_b, n_true cstr_b)))"

subsection \<open>Settings and Python sequences\<close>

text \<open>
  The settings object. Its class is defined outside the sources at hand; the fields are
  the attributes the two modules read. \<open>max_iterations\<close> is \<open>None\<close> for the default
  (infinity). Three fields carry a prefix, since their source names are used for local
  variables (or are reserved): \<open>s_method\<close> is \<^verbatim>\<open>settings.method\<close>, \<open>s_n_cstr\<close> is
  \<^verbatim>\<open>settings.n_cstr\<close> and \<open>s_n_ineq_cstr\<close> is \<^verbatim>\<open>settings.n_ineq_cstr\<close>.
\<close>

record settings =
  s_method :: string
  max_processes :: nat
  termination_tol :: real
  grad_tol :: real
  max_iterations :: "int option"
  n_search :: nat
  alpha_init :: real
  alpha_reset :: bool
  alpha_mult :: real
  search_type :: string
  rsq_tol :: real
  wolfe_armijo :: real
  wolfe_curv :: real
  hess_init :: real
  strict_penalty :: bool
  cstr_tol :: real
  file_tag :: string
  s_n_cstr :: nat
  s_n_ineq_cstr :: nat
  opt_file :: string
  grad_file :: string

text \<open>The defaults that the documentation of \<^verbatim>\<open>minimize\<close> lists.\<close>

definition default_settings :: settings where
  "default_settings =
     \<lparr>s_method = ''bfgs'', max_processes = 1, termination_tol = 1 / 10 ^ 12,
      grad_tol = 1 / 10 ^ 12, max_iterations = None, n_search = 8, alpha_init = 1 / 8,
      alpha_reset = False, alpha_mult = 7, search_type = ''bracket'', rsq_tol = 8 / 10,
      wolfe_armijo = 1 / 10 ^ 4, wolfe_curv = 9 / 10, hess_init = 1, strict_penalty = True,
      cstr_tol = 1 / 10 ^ 4, file_tag = [], s_n_cstr = 0, s_n_ineq_cstr = 0,
      opt_file = [], grad_file = []\<rparr>"

text \<open>
  Indexing a Python list with an integer: a negative index counts from the end, and an
  index outside the list raises \<^verbatim>\<open>IndexError\<close>.
\<close>

definition py_index :: "'a list \<Rightarrow> int \<Rightarrow> py_error + 'a" where
  "py_index xs i =
     (if 0 \<le> i \<and> i < int (length xs) then Inr (xs ! nat i)
      else if i < 0 \<and> - int (length xs) \<le> i then Inr (xs ! nat (int (length xs) + i))
      else Inl IndexError)"

subsection \<open>The optimal step of a line search\<close>

text \<open>
  The quadratic-fit class is defined outside the sources at hand. A fit is represented
  by what \<^verbatim>\<open>_find_opt_alpha\<close> reads from it: the step of the vertex (\<open>None\<close> when the
  fit has no vertex), the convexity flag and the value of \<^verbatim>\<open>rsq\<close>. The constructor is the
  parameter \<open>fit\<close> of the functions below.
\<close>

record quadratic =
  vertex :: "real option"
  convex :: bool
  rsq :: real

text \<open>
  The bracketing branch shared by both generations: the three samples around \<open>min_ind\<close>
  and the quotient the source computes from them. The division raises when the divisor
  is zero (for NumPy scalars it gives a non-finite value instead; neither is a real
  number).
\<close>

definition bracket_step :: "real list \<Rightarrow> real list \<Rightarrow> nat \<Rightarrow> py_error + real" where
  "bracket_step a f_search min_ind =
     (case py_index a (int min_ind - 1) of Inl e \<Rightarrow> Inl e | Inr a1 \<Rightarrow>
      case py_index a (int min_ind) of Inl e \<Rightarrow> Inl e | Inr a2 \<Rightarrow>
      case py_index a (int min_ind + 1) of Inl e \<Rightarrow> Inl e | Inr a3 \<Rightarrow>
      case py_index f_search (int min_ind - 1) of Inl e \<Rightarrow> Inl e | Inr f1 \<Rightarrow>
      case py_index f_search (int min_ind) of Inl e \<Rightarrow> Inl e | Inr f2 \<Rightarrow>
      case py_index f_search (int min_ind + 1) of Inl e \<Rightarrow> Inl e | Inr f3 \<Rightarrow>
        (let dividend = f1 * (a2\<^sup>2 - a3 * 2) + f2 * (a3\<^sup>2 - a1\<^sup>2) + f3 * (a1\<^sup>2 - a2\<^sup>2);
             divisor = 2 * (f1 * (a2 - a3) + f2 * (a3 - a1) + f3 * (a1 - a3))
         in if divisor = 0 then Inl ZeroDivisionError
            else (let alpha_opt = dividend / divisor
                  in Inr (if alpha_opt > a3 \<or> alpha_opt < a1 then a2 else alpha_opt))))"

text \<open>\<^verbatim>\<open>_find_opt_alpha\<close> of the package module.\<close>

definition find_opt_alpha_pkg ::
    "(real list \<Rightarrow> real list \<Rightarrow> quadratic) \<Rightarrow> settings \<Rightarrow> real list \<Rightarrow> real list \<Rightarrow> nat
      \<Rightarrow> py_error + real" where
  "find_opt_alpha_pkg fit st a f_search min_ind =
     (if search_type st = ''quadratic'' then
        (let q = fit a f_search in
         case vertex q of
           None \<Rightarrow> bracket_step a f_search min_ind
         | Some alpha_opt \<Rightarrow>
             if \<not> (alpha_opt < 0 \<or> \<not> convex q \<or> rsq q < rsq_tol st) then Inr alpha_opt
             else bracket_step a f_search min_ind)
      else bracket_step a f_search min_ind)"

text \<open>\<^verbatim>\<open>find_opt_alpha\<close> of the single-file module; its text is the same, line by line.\<close>

definition find_opt_alpha ::
    "(real list \<Rightarrow> real list \<Rightarrow> quadratic) \<Rightarrow> settings \<Rightarrow> real list \<Rightarrow> real list \<Rightarrow> nat
      \<Rightarrow> py_error + real" where
  "find_opt_alpha fit st a f_search min_ind =
     (if search_type st = ''quadratic'' then
        (let q = fit a f_search in
         case vertex q of
           None \<Rightarrow> bracket_step a f_search min_ind
         | Some alpha_opt \<Rightarrow>
             if \<not> (alpha_opt < 0 \<or> \<not> convex q \<or> rsq q < rsq_tol st) then Inr alpha_opt
             else bracket_step a f_search min_ind)
      else bracket_step a f_search min_ind)"

text \<open>
  The bracket formula in the words of the specification: the quotient with the literal
  \<open>2 \<cdot> a3\<close> in its first term, and the clamp to the middle sample.
\<close>

definition spec_quotient :: "real \<Rightarrow> real \<Rightarrow> real \<Rightarrow> real \<Rightarrow> real \<Rightarrow> real \<Rightarrow> real" where
  "spec_quotient a1 a2 a3 f1 f2 f3 =
     (f1 * (a2\<^sup>2 - 2 * a3) + f2 * (a3\<^sup>2 - a1\<^sup>2) + f3 * (a1\<^sup>2 - a2\<^sup>2))
     / (2 * (f1 * (a2 - a3) + f2 * (a3 - a1) + f3 * (a1 - a3)))"

definition spec_divisor :: "real \<Rightarrow> real \<Rightarrow> real \<Rightarrow> real \<Rightarrow> real \<Rightarrow> real \<Rightarrow> real" where
  "spec_divisor a1 a2 a3 f1 f2 f3 = 2 * (f1 * (a2 - a3) + f2 * (a3 - a1) + f3 * (a1 - a3))"

definition spec_clamped :: "real \<Rightarrow> real \<Rightarrow> real \<Rightarrow> real \<Rightarrow> real" where
  "spec_clamped a1 a2 a3 q = (if a1 \<le> q \<and> q \<le> a3 then q else a2)"

text \<open>The bracket fallback is used: bracketing was selected, or the quadratic fit was rejected.\<close>

definition bracket_fallback :: "settings \<Rightarrow> quadratic \<Rightarrow> bool" where
  "bracket_fallback st q =
     (search_type st \<noteq> ''quadratic''
      \<or> (case vertex q of None \<Rightarrow> True
          | Some v \<Rightarrow> v < 0 \<or> \<not> convex q \<or> rsq q < rsq_tol st))"

subsection \<open>The orchestrator\<close>

text \<open>
  A float that may be not-a-number.
\<close>

datatype fval = NaN | Fin real

text \<open>
  What a run does to the world outside is recorded as a trace of events: the worker pool
  being created and left, a file being created or truncated (\<^verbatim>\<open>open(name, 'w')\<close>), a line
  being appended to a log file, the background writer being started on its file, a token
  being put on the queue, and every call of the objective or of a constraint through its
  adapter. Console output is not recorded.
\<close>

datatype event =
    PoolCreate nat
  | PoolExit
  | CreateFile string
  | AppendFile string
  | WriterStart string
  | QueuePut string
  | ObjEval "real list"
  | ObjGrad "real list"
  | CstrEval nat "real list"
  | CstrGrad nat "real list"

fun is_evaluation :: "event \<Rightarrow> bool" where
  "is_evaluation (ObjEval x) = True"
| "is_evaluation (ObjGrad x) = True"
| "is_evaluation (CstrEval i x) = True"
| "is_evaluation (CstrGrad i x) = True"
| "is_evaluation e = False"

fun is_file_creation :: "event \<Rightarrow> bool" where
  "is_file_creation (CreateFile name) = True"
| "is_file_creation (WriterStart name) = True"
| "is_file_creation e = False"

text \<open>
  The objective adapter, whose class is defined outside the sources at hand: \<open>obj_f\<close> is
  \<^verbatim>\<open>f.f\<close> and \<open>obj_del_f\<close> is \<^verbatim>\<open>f.del_f\<close>. The result record of a run is
  \<^verbatim>\<open>OptimizerResult(f, x, success, message, iter, obj_calls, cstr_calls)\<close>.
\<close>

record objective =
  obj_f :: "real list \<Rightarrow> fval"
  obj_del_f :: "real list \<Rightarrow> real list"

record optimizer_result =
  res_f :: fval
  res_x :: "real list"
  success :: bool
  message :: string
  res_iter :: int
  obj_calls :: nat
  cstr_calls :: "nat list"

type_synonym run = "event list \<times> (py_error + optimizer_result)"

text \<open>
  The three drivers are parameters of the orchestrator: each takes the adapters, the
  starting point and the settings, and yields the events of its run with its result or
  the exception it raised.
\<close>

record drivers =
  drv_bfgs :: "objective \<Rightarrow> real list \<Rightarrow> settings \<Rightarrow> run"
  drv_sqp :: "objective \<Rightarrow> constraint_adapter list option \<Rightarrow> real list \<Rightarrow> settings \<Rightarrow> run"
  drv_grg :: "objective \<Rightarrow> constraint_adapter list option \<Rightarrow> real list \<Rightarrow> settings \<Rightarrow> run"

text \<open>\<^verbatim>\<open>_find_minimum\<close>, and \<^verbatim>\<open>find_minimum\<close> of the single-file module, which reads the same.\<close>

definition find_minimum ::
    "drivers \<Rightarrow> objective \<Rightarrow> constraint_adapter list option \<Rightarrow> real list \<Rightarrow> settings \<Rightarrow> run" where
  "find_minimum D f g x_start st =
     (if s_method st = ''bfgs'' then drv_bfgs D f x_start st
      else if s_method st = ''sqp'' then drv_sqp D f g x_start st
      else if s_method st = ''grg'' then drv_grg D f g x_start st
      else ([], Inl (ValueError ''Method improperly specified.'')))"

text \<open>
  \<^verbatim>\<open>format_output_files\<close> creates the two log files, named after the file tag, and stores
  their names in the settings.
\<close>

definition format_output_files :: "settings \<Rightarrow> event list \<times> settings" where
  "format_output_files st =
     (let opt_filename = ''optimize'' @ file_tag st @ ''.txt'';
          grad_filename = ''gradient'' @ file_tag st @ ''.txt''
      in ([CreateFile opt_filename, CreateFile grad_filename],
          st\<lparr>opt_file := opt_filename, grad_file := grad_filename\<rparr>))"

text \<open>
  The part of \<^verbatim>\<open>minimize\<close> after the check of the constraints, which both generations
  share: the output files, the writer (started before the driver when there are several
  processes, after it when there is one), the driver, the shutdown. An exception of the
  driver leaves the \<^verbatim>\<open>with\<close> block at once.
\<close>

definition drive :: "drivers \<Rightarrow> objective \<Rightarrow> constraint_adapter list option \<Rightarrow> real list
    \<Rightarrow> settings \<Rightarrow> run" where
  "drive D f g x_start st0 =
     (let (files, st) = format_output_files st0;
          eval_filename = ''evaluations'' @ file_tag st @ ''.txt'';
          before = (if max_processes st > 1 then [WriterStart eval_filename] else []);
          (tr, opt) = find_minimum D f g x_start st
      in case opt of
           Inl e \<Rightarrow> (files @ before @ tr @ [PoolExit], Inl e)
         | Inr r \<Rightarrow>
             (let after = (if max_processes st = 1 then [WriterStart eval_filename] else [])
              in (files @ before @ tr @ after @ [QueuePut ''kill'', PoolExit], Inr r)))"

text \<open>
  \<^verbatim>\<open>minimize\<close> of the package module. Its arguments here are the objective adapter built
  from \<^verbatim>\<open>fun\<close>, the starting point, the settings object built from the keyword arguments
  and the \<^verbatim>\<open>constraints\<close> option (\<open>None\<close> when absent). The helper module with its
  constraint-list builder is not among the sources; the builder of the single-file module
  stands for it. A pool of no processes is refused by the pool itself.
\<close>

definition minimize_pkg :: "drivers \<Rightarrow> objective \<Rightarrow> real list \<Rightarrow> settings
    \<Rightarrow> constraint_spec list option \<Rightarrow> run" where
  "minimize_pkg D f x0 st0 constraints =
     (let n_vars = length x0; x_start = x0 in
      if max_processes st0 = 0
      then ([], Inl (ValueError ''Number of processes must be at least 1''))
      else
        (let st = (if constraints = None then st0\<lparr>s_method := ''bfgs''\<rparr> else st0);
             (g, n_cstr, n_ineq_cstr) = get_constraints constraints;
             st = st\<lparr>s_n_cstr := n_cstr, s_n_ineq_cstr := n_ineq_cstr\<rparr>
         in if int n_cstr - int n_ineq_cstr > int n_vars
            then ([PoolCreate (max_processes st), PoolExit],
                  Inl (IOError ''There are too many equality constraints; the problem is overconstrained.''))
            else (let (tr, opt) = drive D f g x_start st
                  in (PoolCreate (max_processes st) # tr, opt))))"

text \<open>
  \<^verbatim>\<open>minimize\<close> of the single-file module: the method is left as configured, and the
  error is of another kind.
\<close>

definition minimize :: "drivers \<Rightarrow> objective \<Rightarrow> real list \<Rightarrow> settings
    \<Rightarrow> constraint_spec list option \<Rightarrow> run" where
  "minimize D f x0 st0 constraints =
     (let n_vars = length x0; x_start = x0 in
      if max_processes st0 = 0
      then ([], Inl (ValueError ''Number of processes must be at least 1''))
      else
        (let (g, n_cstr, n_ineq_cstr) = get_constraints constraints;
             st = st0\<lparr>s_n_cstr := n_cstr, s_n_ineq_cstr := n_ineq_cstr\<rparr>
         in if int n_cstr - int n_ineq_cstr > int n_vars
            then ([PoolCreate (max_processes st), PoolExit],
                  Inl (ValueError ''The problem is overconstrained''))
            else (let (tr, opt) = drive D f g x_start st
                  in (PoolCreate (max_processes st) # tr, opt))))"

text \<open>
  The driver run that the orchestrator is expected to make for a given \<^verbatim>\<open>constraints\<close>
  option: the method is replaced by \<^verbatim>\<open>"bfgs"\<close> exactly when the option is \<open>None\<close>, the
  counts are those of the builder, and the driver is chosen by the method.
\<close>

definition dispatched :: "drivers \<Rightarrow> objective \<Rightarrow> real list \<Rightarrow> settings
    \<Rightarrow> constraint_spec list option \<Rightarrow> run" where
  "dispatched D f x0 st constraints =
     find_minimum D f (fst (get_constraints constraints)) x0
       (snd (format_output_files
          (st\<lparr>s_method := (if constraints = None then ''bfgs'' else s_method st),
              s_n_cstr := fst (snd (get_constraints constraints)),
              s_n_ineq_cstr := snd (snd (get_constraints constraints))\<rparr>)))"

text \<open>Sample inputs: drivers that evaluate the objective once and report their name.\<close>

definition probe_drivers :: drivers where
  "probe_drivers =
     \<lparr>drv_bfgs = (\<lambda>f x st. ([ObjEval x], Inr \<lparr>res_f = obj_f f x, res_x = x, success = True,
          message = ''bfgs'', res_iter = 0, obj_calls = 1, cstr_calls = []\<rparr>)),
      drv_sqp = (\<lambda>f g x st. ([ObjEval x], Inr \<lparr>res_f = obj_f f x, res_x = x, success = True,
          message = ''sqp'', res_iter = 0, obj_calls = 1, cstr_calls = []\<rparr>)),
      drv_grg = (\<lambda>f g x st. ([ObjEval x], Inr \<lparr>res_f = obj_f f x, res_x = x, success = True,
          message = ''grg'', res_iter = 0, obj_calls = 1, cstr_calls = []\<rparr>))\<rparr>"

definition eq_spec :: constraint_spec where
  "eq_spec = \<lparr>spec_type = ''eq'', spec_fun = (\<lambda>x. 0), spec_grad = None\<rparr>"

definition zero_objective :: objective where
  "zero_objective = \<lparr>obj_f = (\<lambda>x. Fin 0), obj_del_f = (\<lambda>x. x)\<rparr>"

subsection \<open>The active-set step of SQP\<close>

text \<open>
  Vectors are lists of reals and matrices are lists of rows. The linear-algebra library
  is a parameter: \<open>svd\<close> gives the singular values of a matrix, and \<open>solve\<close> the
  solution of a square linear system, or \<open>None\<close> where the library raises for a
  singular matrix.
\<close>

type_synonym vec = "real list"
type_synonym mat = "real list list"

record linalg =
  svd :: "mat \<Rightarrow> vec"
  solve :: "mat \<Rightarrow> vec \<Rightarrow> vec option"

text \<open>\<^verbatim>\<open>v[mask]\<close> for a boolean mask: the entries of \<open>v\<close> where the mask is \<^verbatim>\<open>True\<close>.\<close>

definition masked :: "'a list \<Rightarrow> bool list \<Rightarrow> 'a list" where
  "masked v m = map fst (filter snd (zip v m))"

text \<open>
  \<^verbatim>\<open>itertools.product(*cstr_opts)\<close>: the first position varies slowest, and each position
  runs through its options in the order given.
\<close>

fun product_opts :: "'a list list \<Rightarrow> 'a list list" where
  "product_opts [] = [[]]"
| "product_opts (opts # rest) = concat (map (\<lambda>b. map (\<lambda>r. b # r) (product_opts rest)) opts)"

definition poss_combos :: "nat \<Rightarrow> nat \<Rightarrow> bool list list" where
  "poss_combos n_cstr n_ineq_cstr =
     product_opts (replicate n_ineq_cstr [True, False] @ replicate (n_cstr - n_ineq_cstr) [True])"

text \<open>\<^verbatim>\<open>_eval_constr(g, x1)\<close>: the value of every constraint at a point.\<close>

definition eval_constr :: "(vec \<Rightarrow> real) list \<Rightarrow> vec \<Rightarrow> vec" where
  "eval_constr g x1 = map (\<lambda>gi. gi x1) g"

text \<open>
  \<^verbatim>\<open>l = np.zeros(n_cstr); l[cstr_b] = l_sol\<close>: the multipliers of the binding constraints are
  put in their places, and the others stay zero. The assignment raises when the
  number of values differs from the number of marked places.
\<close>

fun scatter :: "bool list \<Rightarrow> vec \<Rightarrow> vec option" where
  "scatter [] [] = Some []"
| "scatter [] (v # vs) = None"
| "scatter (False # bs) vs = map_option (\<lambda>r. 0 # r) (scatter bs vs)"
| "scatter (True # bs) [] = None"
| "scatter (True # bs) (v # vs) = map_option (\<lambda>r. v # r) (scatter bs vs)"

text \<open>
  \<^verbatim>\<open>_get_x_lambda\<close>: the system with the blocks \<open>del_2_L0\<close>, \<open>-del_g0[:, cstr_b]\<close>,
  its transpose and zeros, with the right-hand side \<open>-del_f0\<close>, \<open>-g0[cstr_b]\<close>, is solved
  for the step and the multipliers of the binding constraints. \<open>del_g0\<close> has one row
  per design variable and one column per constraint. The number of binding constraints
  is \<^verbatim>\<open>np.asscalar(sum(cstr_b))\<close> with the built-in \<^verbatim>\<open>sum\<close>: for a combination without
  entries (\<^verbatim>\<open>n_cstr = 0\<close>) the sum is the Python integer \<^verbatim>\<open>0\<close>, which has no method
  \<^verbatim>\<open>item\<close>, and the call raises \<^verbatim>\<open>AttributeError\<close>.
\<close>

definition get_x_lambda :: "linalg \<Rightarrow> nat \<Rightarrow> nat \<Rightarrow> mat \<Rightarrow> mat \<Rightarrow> vec \<Rightarrow> vec \<Rightarrow> bool list
    \<Rightarrow> py_error + (vec \<times> vec)" where
  "get_x_lambda LA n_vars n_cstr del_2_L0 del_g0 del_f0 g0 cstr_b =
     (if cstr_b = [] then Inl (AttributeError ''int object has no attribute item'')
      else
       (let n_bind = n_true cstr_b;
            G = map (\<lambda>row. masked row cstr_b) del_g0;
            A = map (\<lambda>(hrow, grow). hrow @ map uminus grow) (zip del_2_L0 G)
                @ map (\<lambda>col. col @ replicate n_bind 0) (transpose G);
            b = map uminus del_f0 @ map uminus (masked g0 cstr_b)
        in case solve LA A b of
             None \<Rightarrow> Inl LinAlgError
           | Some x_lambda \<Rightarrow>
               (let delta_x = take n_vars x_lambda;
                    l_sol = drop n_vars x_lambda
                in case scatter cstr_b l_sol of
                     None \<Rightarrow> Inl (ValueError ''shape mismatch'')
                   | Some l \<Rightarrow> Inr (delta_x, l))))"

text \<open>
  What one pass of either loop of \<^verbatim>\<open>_get_delta_x\<close> leaves in the variables
  \<open>delta_x\<close>, \<open>l\<close>, \<open>x1\<close> and \<open>g1\<close>, together with the combination they were computed for.
\<close>

record candidate =
  cand_b :: "bool list"
  cand_delta_x :: vec
  cand_l :: vec
  cand_x1 :: vec
  cand_g1 :: vec

text \<open>
  The two tests that skip a combination: more binding constraints than design variables,
  and, when more than one constraint is binding, a singular value of the transposed
  binding-constraint gradients below \<open>1e-14\<close> in absolute value.
\<close>

definition skipped :: "linalg \<Rightarrow> nat \<Rightarrow> mat \<Rightarrow> bool list \<Rightarrow> bool" where
  "skipped LA n_vars del_g0 cstr_b =
     (n_true cstr_b > n_vars
      \<or> (n_true cstr_b > 1
          \<and> (\<exists>s \<in> set (svd LA (transpose (map (\<lambda>row. masked row cstr_b) del_g0))).
                \<bar>s\<bar> < 1 / 10 ^ 14)))"

text \<open>The head of a loop body, shared by both loops: \<open>None\<close> stands for \<^verbatim>\<open>continue\<close>.\<close>

definition try_combo :: "linalg \<Rightarrow> vec \<Rightarrow> (vec \<Rightarrow> real) list \<Rightarrow> nat \<Rightarrow> nat \<Rightarrow> mat \<Rightarrow> vec \<Rightarrow> mat
    \<Rightarrow> vec \<Rightarrow> bool list \<Rightarrow> py_error + candidate option" where
  "try_combo LA x0 g n_vars n_cstr del_2_L0 del_f0 del_g0 g0 cstr_b =
     (if skipped LA n_vars del_g0 cstr_b then Inr None
      else case get_x_lambda LA n_vars n_cstr del_2_L0 del_g0 del_f0 g0 cstr_b of
             Inl e \<Rightarrow> Inl e
           | Inr (delta_x, l) \<Rightarrow>
               (let x1 = map (\<lambda>(a, d). a + d) (zip x0 delta_x);
                    g1 = eval_constr g x1
                in Inr (Some \<lparr>cand_b = cstr_b, cand_delta_x = delta_x, cand_l = l,
                               cand_x1 = x1, cand_g1 = g1\<rparr>)))"

text \<open>\<^verbatim>\<open>(g1[cstr_b == False] < 0).any()\<close> and \<^verbatim>\<open>(l[:n_ineq_cstr].flatten() < 0).any()\<close>.\<close>

definition nonbinding_violated :: "candidate \<Rightarrow> bool" where
  "nonbinding_violated c = (\<exists>v \<in> set (masked (cand_g1 c) (map Not (cand_b c))). v < 0)"

definition negative_multiplier :: "nat \<Rightarrow> candidate \<Rightarrow> bool" where
  "negative_multiplier n_ineq_cstr c = (\<exists>v \<in> set (take n_ineq_cstr (cand_l c)). v < 0)"

text \<open>
  The first loop. The state is the candidate computed last, if any; the result says
  whether the loop was left by \<^verbatim>\<open>break\<close>.
\<close>

fun first_pass :: "(bool list \<Rightarrow> py_error + candidate option) \<Rightarrow> nat \<Rightarrow> bool list list
    \<Rightarrow> candidate option \<Rightarrow> py_error + (bool \<times> candidate option)" where
  "first_pass tryc n_ineq_cstr [] cur = Inr (False, cur)"
| "first_pass tryc n_ineq_cstr (cstr_b # rest) cur =
     (case tryc cstr_b of
        Inl e \<Rightarrow> Inl e
      | Inr None \<Rightarrow> first_pass tryc n_ineq_cstr rest cur
      | Inr (Some c) \<Rightarrow>
          if nonbinding_violated c then first_pass tryc n_ineq_cstr rest (Some c)
          else if \<not> negative_multiplier n_ineq_cstr c then Inr (True, Some c)
          else first_pass tryc n_ineq_cstr rest (Some c))"

text \<open>The loop of the \<^verbatim>\<open>else\<close> branch, which drops the test of the non-binding constraints.\<close>

fun second_pass :: "(bool list \<Rightarrow> py_error + candidate option) \<Rightarrow> nat \<Rightarrow> bool list list
    \<Rightarrow> candidate option \<Rightarrow> py_error + candidate option" where
  "second_pass tryc n_ineq_cstr [] cur = Inr cur"
| "second_pass tryc n_ineq_cstr (cstr_b # rest) cur =
     (case tryc cstr_b of
        Inl e \<Rightarrow> Inl e
      | Inr None \<Rightarrow> second_pass tryc n_ineq_cstr rest cur
      | Inr (Some c) \<Rightarrow>
          if \<not> negative_multiplier n_ineq_cstr c then Inr (Some c)
          else second_pass tryc n_ineq_cstr rest (Some c))"

text \<open>
  The search of \<^verbatim>\<open>_get_delta_x\<close> for the combination of binding constraints, up to the
  point where the step is first used (\<^verbatim>\<open>f1 = f.f(x1)\<close>, which raises when no pass has
  assigned \<open>x1\<close>). The penalty test that follows may shorten the step, and changes
  neither the combination nor the multipliers.
\<close>

definition get_delta_x_choice :: "linalg \<Rightarrow> vec \<Rightarrow> (vec \<Rightarrow> real) list \<Rightarrow> nat \<Rightarrow> nat \<Rightarrow> nat \<Rightarrow> mat
    \<Rightarrow> vec \<Rightarrow> mat \<Rightarrow> vec \<Rightarrow> py_error + candidate" where
  "get_delta_x_choice LA x0 g n_vars n_cstr n_ineq_cstr del_2_L0 del_f0 del_g0 g0 =
     (let tryc = try_combo LA x0 g n_vars n_cstr del_2_L0 del_f0 del_g0 g0;
          combos = poss_combos n_cstr n_ineq_cstr
      in case first_pass tryc n_ineq_cstr combos None of
           Inl e \<Rightarrow> Inl e
         | Inr (broke, cur) \<Rightarrow>
             (case (if broke then Inr cur else second_pass tryc n_ineq_cstr combos cur) of
                Inl e \<Rightarrow> Inl e
              | Inr None \<Rightarrow> Inl (UnboundLocalError ''x1'')
              | Inr (Some c) \<Rightarrow> Inr c))"

text \<open>
  The conditions of the specification on a combination, given the candidate of every
  combination that is not skipped: (a) no non-binding constraint is violated at the
  candidate point, (b) no inequality multiplier is negative.
\<close>

definition accepts_ab :: "(bool list \<Rightarrow> py_error + candidate option) \<Rightarrow> nat \<Rightarrow> bool list \<Rightarrow> bool" where
  "accepts_ab tryc n_ineq_cstr cstr_b =
     (case tryc cstr_b of
        Inr (Some c) \<Rightarrow> \<not> nonbinding_violated c \<and> \<not> negative_multiplier n_ineq_cstr c
      | _ \<Rightarrow> False)"

definition accepts_a :: "(bool list \<Rightarrow> py_error + candidate option) \<Rightarrow> bool list \<Rightarrow> bool" where
  "accepts_a tryc cstr_b =
     (case tryc cstr_b of Inr (Some c) \<Rightarrow> \<not> nonbinding_violated c | _ \<Rightarrow> False)"

definition accepts_b :: "(bool list \<Rightarrow> py_error + candidate option) \<Rightarrow> nat \<Rightarrow> bool list \<Rightarrow> bool" where
  "accepts_b tryc n_ineq_cstr cstr_b =
     (case tryc cstr_b of
        Inr (Some c) \<Rightarrow> \<not> negative_multiplier n_ineq_cstr c
      | _ \<Rightarrow> False)"

text \<open>
  The binding set as the specification words it: the first combination that passes (a)
  and (b); the first that passes (b) if no combination passes (a).
\<close>

definition stated_choice :: "(bool list \<Rightarrow> py_error + candidate option) \<Rightarrow> nat \<Rightarrow> bool list list
    \<Rightarrow> bool list option" where
  "stated_choice tryc n_ineq_cstr combos =
     (case find (accepts_ab tryc n_ineq_cstr) combos of
        Some cstr_b \<Rightarrow> Some cstr_b
      | None \<Rightarrow>
          if list_ex (accepts_a tryc) combos then None
          else find (accepts_b tryc n_ineq_cstr) combos)"

text \<open>
  The binding set as the loops choose it: the test of the non-binding constraints is
  dropped as soon as no combination passes both (a) and (b).
\<close>

definition relaxed_choice :: "(bool list \<Rightarrow> py_error + candidate option) \<Rightarrow> nat \<Rightarrow> bool list list
    \<Rightarrow> bool list option" where
  "relaxed_choice tryc n_ineq_cstr combos =
     (case find (accepts_ab tryc n_ineq_cstr) combos of
        Some cstr_b \<Rightarrow> Some cstr_b
      | None \<Rightarrow> find (accepts_b tryc n_ineq_cstr) combos)"

text \<open>
  The linear-dependence test as the specification words it: a combination is skipped
  when it has more binding constraints than design variables or when a singular value
  of the Jacobian of its binding constraints is below \<open>1e-14\<close>, whatever the number of
  binding constraints.
\<close>

definition stated_skipped :: "linalg \<Rightarrow> nat \<Rightarrow> mat \<Rightarrow> bool list \<Rightarrow> bool" where
  "stated_skipped LA n_vars del_g0 cstr_b =
     (n_true cstr_b > n_vars
      \<or> (\<exists>s \<in> set (svd LA (transpose (map (\<lambda>row. masked row cstr_b) del_g0))).
            s < 1 / 10 ^ 14))"

text \<open>A list of combinations none of which makes the loop body raise.\<close>

definition no_raise :: "(bool list \<Rightarrow> py_error + candidate option) \<Rightarrow> bool list list \<Rightarrow> bool" where
  "no_raise tryc combos = list_all (\<lambda>c. case tryc c of Inl e \<Rightarrow> False | Inr r \<Rightarrow> True) combos"

text \<open>
  The combinations that the loops go through before they reach the one they accept: when
  a combination passes (a) and (b), the combinations enumerated before the first such
  one (the first loop stops there, and the second loop does not run); otherwise all of
  them (the first loop runs to its end, and the second loop goes through a part of them
  again).
\<close>

definition tried_before :: "(bool list \<Rightarrow> py_error + candidate option) \<Rightarrow> nat \<Rightarrow> bool list list
    \<Rightarrow> bool list list" where
  "tried_before tryc n_ineq_cstr combos =
     (if list_ex (accepts_ab tryc n_ineq_cstr) combos
      then takeWhile (\<lambda>c. \<not> accepts_ab tryc n_ineq_cstr c) combos
      else combos)"

subsection \<open>The line search of the BFGS driver\<close>

text \<open>Operations of the array library on vectors and matrices.\<close>

definition vadd :: "vec \<Rightarrow> vec \<Rightarrow> vec" where
  "vadd u v = map (\<lambda>(a, b). a + b) (zip u v)"

definition vsub :: "vec \<Rightarrow> vec \<Rightarrow> vec" where
  "vsub u v = map (\<lambda>(a, b). a - b) (zip u v)"

definition smul :: "real \<Rightarrow> vec \<Rightarrow> vec" where
  "smul k v = map (\<lambda>a. k * a) v"

definition inner_prod :: "vec \<Rightarrow> vec \<Rightarrow> real" where
  "inner_prod u v = sum_list (map (\<lambda>(a, b). a * b) (zip u v))"

definition vnorm :: "vec \<Rightarrow> real" where
  "vnorm v = sqrt (sum_list (map (\<lambda>a. a\<^sup>2) v))"

definition matvec :: "mat \<Rightarrow> vec \<Rightarrow> vec" where
  "matvec A v = map (\<lambda>row. inner_prod row v) A"

definition matmul :: "mat \<Rightarrow> mat \<Rightarrow> mat" where
  "matmul A B = map (\<lambda>row. map (\<lambda>col. inner_prod row col) (transpose B)) A"

definition madd :: "mat \<Rightarrow> mat \<Rightarrow> mat" where
  "madd A B = map (\<lambda>(r, q). vadd r q) (zip A B)"

definition msub :: "mat \<Rightarrow> mat \<Rightarrow> mat" where
  "msub A B = map (\<lambda>(r, q). vsub r q) (zip A B)"

definition mscale :: "real \<Rightarrow> mat \<Rightarrow> mat" where
  "mscale k A = map (smul k) A"

definition outer_prod :: "vec \<Rightarrow> vec \<Rightarrow> mat" where
  "outer_prod u v = map (\<lambda>a. map (\<lambda>b. a * b) v) u"

definition eye :: "nat \<Rightarrow> mat" where
  "eye n = map (\<lambda>i. map (\<lambda>j. if i = j then 1 else 0) [0..<n]) [0..<n]"

text \<open>Comparisons with a not-a-number are false.\<close>

fun fval_gt :: "fval \<Rightarrow> real \<Rightarrow> bool" where
  "fval_gt NaN r = False"
| "fval_gt (Fin v) r = (v > r)"

fun is_nan :: "fval \<Rightarrow> bool" where
  "is_nan NaN = True"
| "is_nan (Fin v) = False"

fun fin_of :: "fval \<Rightarrow> real" where
  "fin_of (Fin v) = v"
| "fin_of NaN = 0"

text \<open>\<^verbatim>\<open>np.where(np.isnan(f_search))[0]\<close>: the indices of the samples that are not a number.\<close>

definition nan_indices :: "fval list \<Rightarrow> nat list" where
  "nan_indices f_search = filter (\<lambda>i. is_nan (f_search ! i)) [0..<length f_search]"

text \<open>\<^verbatim>\<open>max(f_search)\<close> and \<^verbatim>\<open>f_search.index(v)\<close>, the index of the first occurrence.\<close>

fun max_list :: "real list \<Rightarrow> real" where
  "max_list (x # xs) = (case xs of [] \<Rightarrow> x | _ \<Rightarrow> max x (max_list xs))"
| "max_list [] = 0"

fun list_index :: "real list \<Rightarrow> real \<Rightarrow> nat" where
  "list_index [] v = 0"
| "list_index (x # xs) v = (if x = v then 0 else Suc (list_index xs v))"

text \<open>
  What \<^verbatim>\<open>_line_search\<close> returns: the plateau branch returns three values, the other
  two \<^verbatim>\<open>return\<close> statements return four.
\<close>

datatype ls_return = Tuple3 vec fval real | Tuple4 vec fval real bool

text \<open>
  The end of \<^verbatim>\<open>_line_search\<close>, after the loop has been left with an interior minimum:
  the optimal step, one more evaluation of the objective, and the first Wolfe condition.
  At this point no sample is not-a-number.
\<close>

definition line_search_finish :: "(vec \<Rightarrow> vec \<Rightarrow> quadratic) \<Rightarrow> settings \<Rightarrow> objective \<Rightarrow> vec
    \<Rightarrow> real \<Rightarrow> vec \<Rightarrow> vec \<Rightarrow> real \<Rightarrow> real list \<Rightarrow> nat \<Rightarrow> event list
    \<Rightarrow> event list \<times> (py_error + ls_return)" where
  "line_search_finish fit st f x0 f0 s del_f0 alpha f_search min_ind tr =
     (let a = map (\<lambda>i. alpha * real i) [0..<n_search st + 1] in
      case find_opt_alpha_pkg fit st a f_search min_ind of
        Inl e \<Rightarrow> (tr, Inl e)
      | Inr alpha_opt \<Rightarrow>
          (let x1 = vadd x0 (smul alpha_opt s);
               f1 = obj_f f x1;
               armijo = f0 + wolfe_armijo st * alpha_opt * inner_prod s del_f0;
               wolfe_satis = (if fval_gt f1 armijo then False else True)
           in (tr @ [ObjEval x1], Inr (Tuple4 x1 f1 alpha_opt wolfe_satis))))"

text \<open>
  The loop \<^verbatim>\<open>while True\<close> of \<^verbatim>\<open>_line_search\<close>. The first argument bounds the number of
  attempts; the result is \<open>None\<close> when the bound is reached. Each attempt evaluates the
  objective at all \<open>n_search\<close> sample points through a pool of its own before anything
  is checked. The line that prints the offending points indexes the Python list
  \<open>x_search\<close> with the array of the not-a-number indices, which Python accepts for
  an array of one index at most (newer releases of the array library refuse that too);
  otherwise it raises before the error of the next line is reached.
\<close>

fun line_search_loop :: "nat \<Rightarrow> (vec \<Rightarrow> vec \<Rightarrow> quadratic) \<Rightarrow> settings \<Rightarrow> objective \<Rightarrow> vec
    \<Rightarrow> fval \<Rightarrow> vec \<Rightarrow> vec \<Rightarrow> real \<Rightarrow> bool \<Rightarrow> bool \<Rightarrow> event list
    \<Rightarrow> (event list \<times> (py_error + ls_return)) option" where
  "line_search_loop 0 fit st f x0 f0 s del_f0 alpha prev_reduced prev_increased tr = None"
| "line_search_loop (Suc k) fit st f x0 f0 s del_f0 alpha prev_reduced prev_increased tr =
     (if max_processes st = 0
      then Some (tr, Inl (ValueError ''Number of processes must be at least 1''))
      else
       (let x_search = map (\<lambda>i. vadd x0 (smul (alpha * real i) s)) [1..<n_search st + 1];
            f_search = map (obj_f f) x_search;
            tr = tr @ map ObjEval x_search;
            x_search = x0 # x_search;
            f_search = f0 # f_search
        in if list_ex is_nan f_search then
             (if length (nan_indices f_search) = 1
              then Some (tr, Inl (ValueError ''Objective function returned a NaN''))
              else Some (tr, Inl (TypeError
                     ''only integer scalar arrays can be converted to a scalar index'')))
           else
             (let fs = map fin_of f_search in
              if min_list fs = max_list fs then Some (tr, Inr (Tuple3 x0 f0 alpha))
              else if fs ! 1 > fs ! 0 \<and> alpha < termination_tol st
              then Some (tr, Inr (Tuple4 x0 f0 alpha True))
              else
                (let min_ind = list_index fs (min_list fs) in
                 if min_ind = 0 then
                   (let multiplier = (if prev_increased then alpha_mult st - 1 else alpha_mult st)
                    in if multiplier = 0 then Some (tr, Inl ZeroDivisionError)
                       else line_search_loop k fit st f x0 f0 s del_f0 (alpha / multiplier)
                              (if prev_increased then prev_reduced else True) False tr)
                 else if min_ind = n_search st then
                   (let multiplier = (if prev_reduced then alpha_mult st - 1 else alpha_mult st)
                    in line_search_loop k fit st f x0 f0 s del_f0 (alpha * multiplier)
                         False (if prev_reduced then prev_increased else True) tr)
                 else Some (line_search_finish fit st f x0 (fin_of f0) s del_f0 alpha fs min_ind tr)))))"

text \<open>\<^verbatim>\<open>_line_search(x0, f0, s, del_f0, f, alpha, settings)\<close>.\<close>

definition line_search :: "nat \<Rightarrow> (vec \<Rightarrow> vec \<Rightarrow> quadratic) \<Rightarrow> settings \<Rightarrow> objective \<Rightarrow> vec
    \<Rightarrow> fval \<Rightarrow> vec \<Rightarrow> vec \<Rightarrow> real \<Rightarrow> event list
    \<Rightarrow> (event list \<times> (py_error + ls_return)) option" where
  "line_search fuel fit st f x0 f0 s del_f0 alpha tr =
     line_search_loop fuel fit st f x0 f0 s del_f0 alpha False False tr"

subsection \<open>The BFGS driver\<close>

text \<open>\<^verbatim>\<open>iter < settings.max_iterations\<close>, where the default bound is infinite.\<close>

definition iter_lt :: "int \<Rightarrow> int option \<Rightarrow> bool" where
  "iter_lt i bound = (case bound of None \<Rightarrow> True | Some m \<Rightarrow> i < m)"

text \<open>
  \<^verbatim>\<open>append_file\<close> appends one line to each of the two log files. The counter of the
  objective adapter that the result reports is taken to count the evaluations that the
  driver asks of the adapter.
\<close>

definition append_file :: "settings \<Rightarrow> event list" where
  "append_file st = [AppendFile (opt_file st), AppendFile (grad_file st)]"

fun is_obj_eval :: "event \<Rightarrow> bool" where
  "is_obj_eval (ObjEval x) = True"
| "is_obj_eval e = False"

definition eval_calls :: "event list \<Rightarrow> nat" where
  "eval_calls tr = length (filter is_obj_eval tr)"

text \<open>\<^verbatim>\<open>_get_N\<close>, the update of the inverse Hessian.\<close>

definition get_N :: "mat \<Rightarrow> vec \<Rightarrow> vec \<Rightarrow> vec \<Rightarrow> py_error + mat" where
  "get_N N0 delta_x0 del_f0 del_f1 =
     (let y_k = vsub del_f1 del_f0 in
      if inner_prod delta_x0 y_k = 0 then Inl NonFinite
      else
        (let sigma_k = 1 / inner_prod delta_x0 y_k;
             A = msub (eye (length delta_x0)) (mscale sigma_k (outer_prod delta_x0 y_k));
             B = mscale sigma_k (outer_prod delta_x0 delta_x0)
         in Inr (madd (matmul A (matmul N0 A)) B)))"

text \<open>
  The local variables of \<^verbatim>\<open>_bfgs\<close>. \<open>b_x2\<close> and \<open>b_f2\<close> are \<open>None\<close> until the line
  search of the inner loop has assigned them; the variables without an initial value in
  the source that are always assigned before they are read start with an arbitrary value.
\<close>

record bfgs_state =
  b_iter :: int
  b_o_iter :: int
  b_i_iter :: int
  b_mag_dx :: real
  b_x0 :: vec
  b_alpha_guess :: "real option"
  b_f0 :: fval
  b_del_f0 :: vec
  b_N0 :: mat
  b_x1 :: vec
  b_f1 :: fval
  b_delta_x0 :: vec
  b_x2 :: "vec option"
  b_f2 :: "fval option"
  b_trace :: "event list"

text \<open>How the inner loop is left: by \<^verbatim>\<open>return\<close>, or back to the outer loop.\<close>

datatype inner_exit = Return optimizer_result | Leave bfgs_state

text \<open>
  The inner loop of \<^verbatim>\<open>_bfgs\<close>. The four names on the left of the call of the line
  search need four values: the three of the plateau branch make the assignment raise.
\<close>

fun bfgs_inner :: "nat \<Rightarrow> (vec \<Rightarrow> vec \<Rightarrow> quadratic) \<Rightarrow> settings \<Rightarrow> objective \<Rightarrow> bfgs_state
    \<Rightarrow> (event list \<times> (py_error + inner_exit)) option" where
  "bfgs_inner 0 fit st f S = None"
| "bfgs_inner (Suc k) fit st f S =
     (if \<not> (iter_lt (b_iter S) (max_iterations st) \<and> b_mag_dx S > termination_tol st)
      then Some (b_trace S, Inr (Leave S))
      else
       (let S = S\<lparr>b_i_iter := b_i_iter S + 1, b_iter := b_iter S + 1\<rparr>;
            del_f1 = obj_del_f f (b_x1 S);
            S = S\<lparr>b_trace := b_trace S @ [ObjGrad (b_x1 S)] @ append_file st\<rparr>
        in if vnorm del_f1 < grad_tol st
           then Some (b_trace S, Inr (Return
                  \<lparr>res_f = b_f1 S, res_x = b_x1 S, success = True,
                   message = ''Gradient tolerance reached.'', res_iter = b_iter S,
                   obj_calls = eval_calls (b_trace S), cstr_calls = []\<rparr>))
           else if inner_prod (b_delta_x0 S) del_f1
                     < wolfe_curv st * inner_prod (b_delta_x0 S) (b_del_f0 S)
           then Some (b_trace S, Inr (Leave (S\<lparr>b_x0 := b_x1 S\<rparr>)))
           else
            (case get_N (b_N0 S) (b_delta_x0 S) (b_del_f0 S) del_f1 of
               Inl e \<Rightarrow> Some (b_trace S, Inl e)
             | Inr N1 \<Rightarrow>
                (let s = smul (- 1) (matvec N1 del_f1);
                     mag_s = vnorm s
                 in if mag_s = 0 then Some (b_trace S, Inl NonFinite)
                    else
                     (let s = map (\<lambda>a. a / mag_s) s;
                          alpha_guess = (if alpha_reset st then alpha_init st else b_mag_dx S);
                          S = S\<lparr>b_alpha_guess := Some alpha_guess\<rparr>
                      in case line_search k fit st f (b_x1 S) (b_f1 S) s del_f1 alpha_guess
                                (b_trace S) of
                           None \<Rightarrow> None
                         | Some (tr, Inl e) \<Rightarrow> Some (tr, Inl e)
                         | Some (tr, Inr (Tuple3 x2 f2 alpha)) \<Rightarrow>
                             Some (tr, Inl (ValueError
                               ''not enough values to unpack (expected 4, got 3)''))
                         | Some (tr, Inr (Tuple4 x2 f2 alpha wolfe_satis)) \<Rightarrow>
                            (let S = S\<lparr>b_x2 := Some x2, b_f2 := Some f2, b_trace := tr\<rparr>
                             in if \<not> wolfe_satis
                                then Some (tr, Inr (Leave (S\<lparr>b_x0 := x2\<rparr>)))
                                else bfgs_inner k fit st f
                                       (S\<lparr>b_mag_dx := alpha, b_x0 := b_x1 S, b_f0 := b_f1 S,
                                          b_del_f0 := del_f1,
                                          b_delta_x0 := vsub x2 (b_x1 S),
                                          b_x1 := x2, b_f1 := f2\<rparr>)))))))"

text \<open>
  The outer loop of \<^verbatim>\<open>_bfgs\<close> and the \<^verbatim>\<open>return\<close> after it, which reads \<open>f2\<close> and
  \<open>x2\<close>.
\<close>

fun bfgs_outer :: "nat \<Rightarrow> (vec \<Rightarrow> vec \<Rightarrow> quadratic) \<Rightarrow> settings \<Rightarrow> objective \<Rightarrow> bfgs_state
    \<Rightarrow> (event list \<times> (py_error + optimizer_result)) option" where
  "bfgs_outer 0 fit st f S = None"
| "bfgs_outer (Suc k) fit st f S =
     (if \<not> (iter_lt (b_iter S) (max_iterations st) \<and> b_mag_dx S > termination_tol st)
      then
       (case (b_f2 S, b_x2 S) of
          (Some f2, Some x2) \<Rightarrow>
            Some (b_trace S, Inr \<lparr>res_f = f2, res_x = x2, success = True,
                   message = ''Step tolerance reached.'', res_iter = b_iter S,
                   obj_calls = eval_calls (b_trace S), cstr_calls = []\<rparr>)
        | _ \<Rightarrow> Some (b_trace S, Inl (UnboundLocalError ''f2'')))
      else
       (let S = S\<lparr>b_o_iter := b_o_iter S + 1, b_i_iter := 0, b_iter := b_iter S + 1\<rparr>;
            f0 = obj_f f (b_x0 S);
            del_f0 = obj_del_f f (b_x0 S);
            N0 = mscale (hess_init st) (eye (length (b_x0 S)));
            S = S\<lparr>b_f0 := f0, b_del_f0 := del_f0, b_N0 := N0,
                  b_trace := b_trace S @ [ObjEval (b_x0 S), ObjGrad (b_x0 S)] @ append_file st\<rparr>;
            s = smul (- 1) (matvec N0 del_f0);
            alpha_guess = (if b_alpha_guess S = None \<or> alpha_reset st then alpha_init st
                           else b_mag_dx S);
            S = S\<lparr>b_alpha_guess := Some alpha_guess\<rparr>;
            mag_s = vnorm s
        in if mag_s = 0 then Some (b_trace S, Inl NonFinite)
           else
            (let s = map (\<lambda>a. a / mag_s) s in
             case line_search k fit st f (b_x0 S) f0 s del_f0 alpha_guess (b_trace S) of
               None \<Rightarrow> None
             | Some (tr, Inl e) \<Rightarrow> Some (tr, Inl e)
             | Some (tr, Inr (Tuple3 x1 f1 alpha)) \<Rightarrow>
                 Some (tr, Inl (ValueError ''not enough values to unpack (expected 4, got 3)''))
             | Some (tr, Inr (Tuple4 x1 f1 alpha wolfe_satis)) \<Rightarrow>
                (case bfgs_inner k fit st f
                        (S\<lparr>b_x1 := x1, b_f1 := f1, b_delta_x0 := vsub x1 (b_x0 S),
                           b_mag_dx := alpha, b_trace := tr\<rparr>) of
                   None \<Rightarrow> None
                 | Some (tr, Inl e) \<Rightarrow> Some (tr, Inl e)
                 | Some (tr, Inr (Return r)) \<Rightarrow> Some (tr, Inr r)
                 | Some (tr, Inr (Leave S')) \<Rightarrow> bfgs_outer k fit st f S'))))"

text \<open>\<^verbatim>\<open>_bfgs(f, x_start, settings)\<close>, with a bound on the iterations of its loops.\<close>

definition bfgs :: "nat \<Rightarrow> (vec \<Rightarrow> vec \<Rightarrow> quadratic) \<Rightarrow> objective \<Rightarrow> vec \<Rightarrow> settings
    \<Rightarrow> (event list \<times> (py_error + optimizer_result)) option" where
  "bfgs fuel fit f x_start st =
     bfgs_outer fuel fit st f
       \<lparr>b_iter = - 1, b_o_iter = - 1, b_i_iter = 0, b_mag_dx = 1, b_x0 = x_start,
        b_alpha_guess = None, b_f0 = NaN, b_del_f0 = [], b_N0 = [], b_x1 = [], b_f1 = NaN,
        b_delta_x0 = [], b_x2 = None, b_f2 = None, b_trace = []\<rparr>"

text \<open>
  Sample inputs: a fit that is never accepted, the objective \<open>x\<^sup>2\<close> with its gradient, a
  hinge \<open>max(0, -x)\<close> with its central-difference gradient for the step \<open>0.001\<close>, and
  an objective that is \<open>x\<close> for \<open>x \<ge> 0\<close> and not a number below.
\<close>

definition no_fit :: "vec \<Rightarrow> vec \<Rightarrow> quadratic" where
  "no_fit a f_search = \<lparr>vertex = None, convex = False, rsq = 0\<rparr>"

definition square_objective :: objective where
  "square_objective = \<lparr>obj_f = (\<lambda>x. Fin ((x ! 0)\<^sup>2)), obj_del_f = (\<lambda>x. [2 * x ! 0])\<rparr>"

definition hinge :: "real \<Rightarrow> real" where
  "hinge v = max 0 (- v)"

definition hinge_objective :: objective where
  "hinge_objective =
     \<lparr>obj_f = (\<lambda>x. Fin (hinge (x ! 0))),
      obj_del_f = (\<lambda>x. [(hinge (x ! 0 + 1 / 1000) - hinge (x ! 0 - 1 / 1000)) / (2 * (1 / 1000))])\<rparr>"

definition halfline_objective :: objective where
  "halfline_objective =
     \<lparr>obj_f = (\<lambda>x. if x ! 0 < 0 then NaN else Fin (x ! 0)), obj_del_f = (\<lambda>x. [1])\<rparr>"

subsection \<open>The GRG driver and its line search\<close>

text \<open>
  A candidate of the feasibility-restoring line search is the triple of its point, its
  objective value and its constraint values. \<^verbatim>\<open>_eval_search_point\<close> turns every
  floating-point warning into \<^verbatim>\<open>None\<close>, which the reals cannot show; it is a parameter
  of the line search, a function from the step \<open>alpha * i\<close> to the candidate or \<open>None\<close>.
\<close>

type_synonym search_point = "vec \<times> real \<times> vec"

text \<open>\<^verbatim>\<open>m[:, j]\<close>, a column of a matrix.\<close>

definition column :: "mat \<Rightarrow> nat \<Rightarrow> vec" where
  "column m j = map (\<lambda>row. row ! j) m"

text \<open>
  The feasibility test on a column of \<open>g_search\<close>: an inequality constraint below
  \<open>-cstr_tol\<close>, or an equality constraint beyond \<open>cstr_tol\<close> in absolute value.
\<close>

definition infeasible :: "settings \<Rightarrow> vec \<Rightarrow> bool" where
  "infeasible st gcol =
     ((\<exists>v \<in> set (take (s_n_ineq_cstr st) gcol). v < - cstr_tol st)
      \<or> (\<exists>v \<in> set (drop (s_n_ineq_cstr st) gcol). \<bar>v\<bar> > cstr_tol st))"

text \<open>\<^verbatim>\<open>while min_ind > 0 and (infeasible): min_ind -= 1\<close>.\<close>

fun step_back :: "settings \<Rightarrow> mat \<Rightarrow> nat \<Rightarrow> nat" where
  "step_back st g_search 0 = 0"
| "step_back st g_search (Suc m) =
     (if infeasible st (column g_search (Suc m)) then step_back st g_search m else Suc m)"

text \<open>
  The loop \<^verbatim>\<open>while alpha > settings.termination_tol\<close> of \<^verbatim>\<open>_grg_line_search\<close> with its
  \<^verbatim>\<open>else\<close> branch. The last argument holds \<open>x_search\<close>, \<open>f_search\<close> and \<open>g_search\<close> as
  the previous attempt left them (after \<^verbatim>\<open>np.array(...).T\<close>, which makes \<open>x_search\<close> a
  matrix with one row per design variable and one column per candidate), or \<open>None\<close>
  before the first attempt. The starting point assembled from the partition is the
  current point \<open>x0\<close>. The result is \<^verbatim>\<open>(x1, f1, g1, code)\<close>.
\<close>

fun grg_line_search_loop :: "nat \<Rightarrow> settings \<Rightarrow> (real \<Rightarrow> search_point option) \<Rightarrow> vec \<Rightarrow> real
    \<Rightarrow> vec \<Rightarrow> real \<Rightarrow> (mat \<times> vec \<times> mat) option
    \<Rightarrow> (py_error + (vec \<times> real \<times> vec \<times> int)) option" where
  "grg_line_search_loop 0 st evalp x0 f0 g0 alpha prev = None"
| "grg_line_search_loop (Suc k) st evalp x0 f0 g0 alpha prev =
     (if \<not> alpha > termination_tol st then
        (case prev of
           None \<Rightarrow> Some (Inl (UnboundLocalError ''x_search''))
         | Some (x_search, f_search, g_search) \<Rightarrow>
             Some (Inr (column x_search 0, f_search ! 0, column g_search 0,
                        if length x_search = 1 then - 1 else 1)))
      else
       (let points = (x0, f0, g0)
                     # List.map_filter (\<lambda>i. evalp (alpha * real i)) [1..<n_search st + 1];
            count = length points;
            x_search = transpose (map fst points);
            f_search = map (\<lambda>p. fst (snd p)) points;
            g_search = transpose (map (\<lambda>p. snd (snd p)) points)
        in if count = 1 then
             (if alpha_mult st = 0 then Some (Inl ZeroDivisionError)
              else grg_line_search_loop k st evalp x0 f0 g0 (alpha / alpha_mult st)
                     (Some (x_search, f_search, g_search)))
           else
            (let min_ind = list_index f_search (min_list f_search);
                 min_ind = step_back st g_search min_ind;
                 min_ind = (if min_ind = 0 \<and> infeasible st (column g_search min_ind)
                            then min_ind + 1 else min_ind)
             in if min_ind = n_search st then
                  grg_line_search_loop k st evalp x0 f0 g0 (alpha * alpha_mult st)
                    (Some (x_search, f_search, g_search))
                else if min_ind = 0 then
                  (if alpha_mult st = 0 then Some (Inl ZeroDivisionError)
                   else grg_line_search_loop k st evalp x0 f0 g0 (alpha / alpha_mult st)
                          (Some (x_search, f_search, g_search)))
                else Some (Inr (column x_search min_ind, f_search ! min_ind,
                                column g_search min_ind, 1)))))"

definition grg_line_search :: "nat \<Rightarrow> settings \<Rightarrow> (real \<Rightarrow> search_point option) \<Rightarrow> vec \<Rightarrow> real
    \<Rightarrow> vec \<Rightarrow> real \<Rightarrow> (py_error + (vec \<times> real \<times> vec \<times> int)) option" where
  "grg_line_search fuel st evalp x0 f0 g0 alpha =
     grg_line_search_loop fuel st evalp x0 f0 g0
       (if alpha_reset st then alpha_init st else alpha) None"

text \<open>
  The numerical parts of an iteration of \<^verbatim>\<open>_grg\<close> that are parameters here: the
  objective and the constraints, \<^verbatim>\<open>_eval_grad\<close>, the reduced gradient that the
  partition of the variables and the linear solve produce from the point, the constraint
  values, the gradients and the binding set, and \<^verbatim>\<open>_eval_search_point\<close> for the point,
  the constraint values, the binding set and the search direction. The call counters of
  the adapters, which these parts advance, and the lines appended to the log files are
  not part of the model, and the magnitude that the messages print is left out of them.
\<close>

record grg_numerics =
  gn_f :: "vec \<Rightarrow> real"
  gn_g :: "(vec \<Rightarrow> real) list"
  gn_eval_grad :: "vec \<Rightarrow> vec \<times> mat"
  gn_reduced :: "vec \<Rightarrow> vec \<Rightarrow> vec \<Rightarrow> mat \<Rightarrow> bool list \<Rightarrow> nat \<Rightarrow> py_error + vec"
  gn_eval_search_point :: "vec \<Rightarrow> vec \<Rightarrow> bool list \<Rightarrow> vec \<Rightarrow> real \<Rightarrow> search_point option"

record grg_result =
  grg_f :: real
  grg_x :: vec
  grg_success :: bool
  grg_message :: string
  grg_iter :: int

text \<open>
  The loop of \<^verbatim>\<open>_grg\<close> and the \<^verbatim>\<open>return\<close> after it. The argument before the last
  holds \<open>f1\<close> and \<open>x1\<close> once a line search has assigned them.
\<close>

fun grg_loop :: "nat \<Rightarrow> settings \<Rightarrow> grg_numerics \<Rightarrow> nat \<Rightarrow> int \<Rightarrow> vec \<Rightarrow> real \<Rightarrow> vec \<Rightarrow> real
    \<Rightarrow> (real \<times> vec) option \<Rightarrow> (py_error + grg_result) option" where
  "grg_loop 0 st N n_vars iter x0 f0 g0 mag_dx assigned = None"
| "grg_loop (Suc k) st N n_vars iter x0 f0 g0 mag_dx assigned =
     (if \<not> (mag_dx > termination_tol st \<and> iter_lt iter (max_iterations st)) then
        (case assigned of
           None \<Rightarrow> Some (Inl (UnboundLocalError ''f1''))
         | Some (f1, x1) \<Rightarrow>
             Some (Inr \<lparr>grg_f = f1, grg_x = x1, grg_success = True,
                        grg_message = ''Step termination tolerance reached'', grg_iter = iter\<rparr>))
      else
       (let iter = iter + 1;
            (del_f0, del_g0) = gn_eval_grad N x0
        in case grg_binding g0 n_vars (s_n_cstr st) (s_n_ineq_cstr st) (cstr_tol st) of
             Inl e \<Rightarrow> Some (Inl e)
           | Inr (cstr_b, n_binding) \<Rightarrow>
              (case gn_reduced N x0 g0 del_f0 del_g0 cstr_b n_binding of
                 Inl e \<Rightarrow> Some (Inl e)
               | Inr del_f_r0 \<Rightarrow>
                  if vnorm del_f_r0 < grad_tol st then
                    Some (Inr \<lparr>grg_f = f0, grg_x = x0, grg_success = True,
                               grg_message = ''Gradient termination tolerance reached'',
                               grg_iter = iter\<rparr>)
                  else if vnorm del_f_r0 = 0 then Some (Inl NonFinite)
                  else
                   (let s = map (\<lambda>a. - a / vnorm del_f_r0) del_f_r0 in
                    case grg_line_search k st (gn_eval_search_point N x0 g0 cstr_b s)
                           x0 f0 g0 mag_dx of
                      None \<Rightarrow> None
                    | Some (Inl e) \<Rightarrow> Some (Inl e)
                    | Some (Inr (x1, f1, g1, err)) \<Rightarrow>
                        if err = - 1 then
                          Some (Inr \<lparr>grg_f = f1, grg_x = x1, grg_success = False,
                                 grg_message =
                                   ''Failed to converge to one or more constraint boundaries.'',
                                 grg_iter = iter\<rparr>)
                        else grg_loop k st N n_vars iter x1 f1 g1 (vnorm (vsub x1 x0))
                               (Some (f1, x1))))))"

text \<open>\<^verbatim>\<open>_grg(f, g, x_start, settings)\<close>, with a bound on the iterations of its loops.\<close>

definition grg :: "nat \<Rightarrow> settings \<Rightarrow> grg_numerics \<Rightarrow> vec \<Rightarrow> (py_error + grg_result) option" where
  "grg fuel st N x_start =
     grg_loop fuel st N (length x_start) 0 x_start (gn_f N x_start)
       (eval_constr (gn_g N) x_start) 1 None"

text \<open>
  A sample problem in two variables with one equality constraint: the objective is
  \<open>3 x\<^sub>0 + 4 x\<^sub>1\<close> for \<open>x\<^sub>0 \<ge> 0\<close> and raises a floating-point warning for \<open>x\<^sub>0 < 0\<close>
  (as \<^verbatim>\<open>3*x[0] + 4*x[1] + 0*np.sqrt(x[0])\<close> does), the constraint is \<open>x\<^sub>1 = 0\<close>, and the
  start is the origin. The constraint is binding. The partition makes the slack variable
  and \<open>x\<^sub>0\<close> the independent variables and \<open>x\<^sub>1\<close> the dependent one, with
  \<open>d_psi_d_z0 = [[1, 0]]\<close>, \<open>d_psi_d_y0 = [[-1]]\<close>, \<open>del_f_z0 = [0, 3]\<close> and
  \<open>del_f_y0 = [4]\<close>; the solve gives \<open>[-4]\<close> and the reduced gradient is
  \<open>[0, 3] - [-4, 0] = [4, 3]\<close>. Every trial point has \<open>x\<^sub>0 = -(3/5) alpha i < 0\<close>, also
  after the dependent variable is put back on the constraint, so that the evaluation
  of the objective raises the warning and \<^verbatim>\<open>_eval_search_point\<close> returns \<^verbatim>\<open>None\<close>.
\<close>

definition warning_left :: grg_numerics where
  "warning_left =
     \<lparr>gn_f = (\<lambda>x. 3 * x ! 0 + 4 * x ! 1), gn_g = [\<lambda>x. x ! 1],
      gn_eval_grad = (\<lambda>x. ([3, 4], [[0], [1]])),
      gn_reduced = (\<lambda>x0 g0 del_f0 del_g0 cstr_b n_binding. Inr [4, 3]),
      gn_eval_search_point = (\<lambda>x0 g0 cstr_b s a. None)\<rparr>"

definition grg_settings :: settings where
  "grg_settings = default_settings\<lparr>s_method := ''grg'', s_n_cstr := 1, s_n_ineq_cstr := 0\<rparr>"

subsection \<open>Sample problems for the active-set step\<close>

text \<open>
  A sample of the library: the solver is Cramer's rule, with the determinant by
  expansion along the first row, and it refuses a matrix whose determinant is zero, as
  \<^verbatim>\<open>np.linalg.solve\<close> refuses a singular matrix. The singular values of a matrix of one
  row are the norm of the row; those of a matrix of two rows \<open>u\<close>, \<open>v\<close> are the square
  roots of the eigenvalues of the matrix of their inner products, the larger first.
\<close>

fun det :: "mat \<Rightarrow> real" where
  "det [] = 1"
| "det (r # rs) =
     sum_list (map (\<lambda>j. (- 1) ^ j * r ! j * det (map (\<lambda>row. take j row @ drop (Suc j) row) rs))
                   [0..<length r])"

definition cramer :: "mat \<Rightarrow> vec \<Rightarrow> vec option" where
  "cramer A b =
     (if det A = 0 then None
      else Some (map (\<lambda>i. det (map (\<lambda>(row, p). row[i := p]) (zip A b)) / det A)
                     [0..<length A]))"

definition gram_svd :: "mat \<Rightarrow> vec" where
  "gram_svd m =
     (case m of
        [u] \<Rightarrow> [vnorm u]
      | [u, v] \<Rightarrow>
          (let t = inner_prod u u + inner_prod v v;
               d = inner_prod u u * inner_prod v v - inner_prod u v * inner_prod u v
           in [sqrt ((t + sqrt (t * t - 4 * d)) / 2), sqrt ((t - sqrt (t * t - 4 * d)) / 2)])
      | _ \<Rightarrow> [])"

definition sample_linalg :: linalg where
  "sample_linalg = \<lparr>svd = gram_svd, solve = cramer\<rparr>"

text \<open>
  One variable, the objective \<open>2x\<close> and the constraint \<open>1 - x\<^sup>2 \<ge> 0\<close> at \<open>x = 1/2\<close>, with
  the identity as the Hessian of the Lagrangian (as in all the samples).
\<close>

definition sample_try :: "bool list \<Rightarrow> py_error + candidate option" where
  "sample_try =
     try_combo sample_linalg [1 / 2] [\<lambda>x. 1 - (x ! 0)\<^sup>2] 1 1 [[1]] [2] [[- 1]] [3 / 4]"

text \<open>
  One variable, the objective \<open>2x\<close> and the constant constraint \<open>1 \<ge> 0\<close>, whose gradient
  is zero, at \<open>x = 0\<close>.
\<close>

definition flat_try :: "bool list \<Rightarrow> py_error + candidate option" where
  "flat_try = try_combo sample_linalg [0] [\<lambda>x. 1] 1 1 [[1]] [2] [[0]] [1]"

text \<open>
  Two variables, the objective \<open>x\<^sub>0 + x\<^sub>1\<close> and the equality constraint \<open>x\<^sub>0 = 0\<close> given
  twice, at the origin: the two gradients are equal.
\<close>

definition parallel_try :: "bool list \<Rightarrow> py_error + candidate option" where
  "parallel_try =
     try_combo sample_linalg [0, 0] [\<lambda>x. x ! 0, \<lambda>x. x ! 0] 2 2 [[1, 0], [0, 1]] [1, 1]
       [[1, 1], [0, 0]] [0, 0]"

text \<open>
  Two variables, the objective \<open>((x\<^sub>0 - 1)\<^sup>2 + (x\<^sub>1 - 1)\<^sup>2) / 2\<close>, the inequality
  constraint \<open>2 - x\<^sub>0 \<ge> 0\<close> and the equality constraint \<open>x\<^sub>1 = 0\<close>, at the origin.
\<close>

definition mixed_try :: "bool list \<Rightarrow> py_error + candidate option" where
  "mixed_try =
     try_combo sample_linalg [0, 0] [\<lambda>x. 2 - x ! 0, \<lambda>x. x ! 1] 2 2 [[1, 0], [0, 1]] [- 1, - 1]
       [[- 1, 0], [0, 1]] [2, 0]"

text \<open>
  One variable, the objective \<open>- 2x\<close> and the inequality constraints \<open>1 - x \<ge> 0\<close> and
  \<open>5 - x\<^sup>2 \<ge> 0\<close>, at \<open>x = 0\<close>, where the gradient of the second constraint is zero.
\<close>

definition early_try :: "bool list \<Rightarrow> py_error + candidate option" where
  "early_try =
     try_combo sample_linalg [0] [\<lambda>x. 1 - x ! 0, \<lambda>x. 5 - (x ! 0)\<^sup>2] 1 2 [[1]] [- 2]
       [[- 1, 0]] [1, 5]"

section \<open>Properties\<close>

subsection \<open>Constraint-list builder\<close>

lemma ineq_pass_eq:
  "ineq_pass cs g n =
     (g @ map Constraint (filter (\<lambda>c. spec_type c = ''ineq'') cs),
      n + length (filter (\<lambda>c. spec_type c = ''ineq'') cs))"
  by (induction cs arbitrary: g n) simp_all

lemma eq_pass_eq:
  "eq_pass cs g = g @ map Constraint (filter (\<lambda>c. spec_type c = ''eq'') cs)"
  by (induction cs arbitrary: g) simp_all

lemma get_constraints_Some:
  "get_constraints (Some cs) =
     (Some (map Constraint (filter (\<lambda>c. spec_type c = ''ineq'') cs)
            @ map Constraint (filter (\<lambda>c. spec_type c = ''eq'') cs)),
      length cs, length (filter (\<lambda>c. spec_type c = ''ineq'') cs))"
  by (simp add: get_constraints_def ineq_pass_eq eq_pass_eq)

lemma length_filter_eq_ineq:
  assumes "\<forall>c \<in> set cs. spec_type c = ''eq'' \<or> spec_type c = ''ineq''"
  shows "length (filter (\<lambda>c. spec_type c = ''ineq'') cs)
         + length (filter (\<lambda>c. spec_type c = ''eq'') cs) = length cs"
  using assms by (induction cs) auto

text \<open>
  Claim C1, as stated, expects an empty list when no constraints are supplied. Without a
  \<^verbatim>\<open>constraints\<close> option the builder returns \<^verbatim>\<open>None\<close> in the place of the list.
\<close>

theorem get_constraints_none_counterexample:
  "get_constraints None = (None, 0, 0) \<and> fst (get_constraints None) \<noteq> Some []"
  by (simp add: get_constraints_def)

text \<open>
  Claim C1, amended. For every supplied list whose entries are tagged \<^verbatim>\<open>"eq"\<close> or
  \<^verbatim>\<open>"ineq"\<close>, in any mixture and order, the builder returns the inequality adapters in
  input order followed by the equality adapters in input order, \<open>n_ineq_cstr\<close> is the
  number of \<^verbatim>\<open>"ineq"\<close> entries and \<open>n_cstr\<close> the number of entries, so that the indices
  below \<open>n_ineq_cstr\<close> are inequalities and the others equalities. A supplied empty list
  gives an empty list and both counts zero; with no \<^verbatim>\<open>constraints\<close> option at all the
  builder returns \<^verbatim>\<open>None\<close> instead of a list, and both counts zero.
\<close>

theorem get_constraints_ordered:
  assumes wf: "\<forall>c \<in> set cs. spec_type c = ''eq'' \<or> spec_type c = ''ineq''"
  shows "\<exists>g. get_constraints (Some cs)
               = (Some g, length cs, length (filter (\<lambda>c. spec_type c = ''ineq'') cs))
           \<and> g = map Constraint (filter (\<lambda>c. spec_type c = ''ineq'') cs)
                 @ map Constraint (filter (\<lambda>c. spec_type c = ''eq'') cs)
           \<and> length g = length cs
           \<and> (\<forall>i < length (filter (\<lambda>c. spec_type c = ''ineq'') cs). cstr_type (g ! i) = ''ineq'')
           \<and> (\<forall>i. length (filter (\<lambda>c. spec_type c = ''ineq'') cs) \<le> i \<and> i < length cs
                  \<longrightarrow> cstr_type (g ! i) = ''eq'')
           \<and> get_constraints (Some []) = (Some [], 0, 0)
           \<and> get_constraints None = (None, 0, 0)"
proof -
  define ineqs where "ineqs = filter (\<lambda>c. spec_type c = ''ineq'') cs"
  define eqs where "eqs = filter (\<lambda>c. spec_type c = ''eq'') cs"
  define g where "g = map Constraint ineqs @ map Constraint eqs"
  have len: "length ineqs + length eqs = length cs"
    using length_filter_eq_ineq[OF wf] by (simp add: ineqs_def eqs_def)
  have run: "get_constraints (Some cs) = (Some g, length cs, length ineqs)"
    by (simp add: get_constraints_Some g_def ineqs_def eqs_def)
  have lg: "length g = length cs" using len by (simp add: g_def)
  have lo: "cstr_type (g ! i) = ''ineq''" if "i < length ineqs" for i
  proof -
    have "ineqs ! i \<in> set ineqs" using that by simp
    then have "spec_type (ineqs ! i) = ''ineq''" by (simp add: ineqs_def)
    then show ?thesis using that by (simp add: g_def nth_append Constraint_def)
  qed
  have hi: "cstr_type (g ! i) = ''eq''" if "length ineqs \<le> i" "i < length cs" for i
  proof -
    have j: "i - length ineqs < length eqs" using that len by linarith
    then have "eqs ! (i - length ineqs) \<in> set eqs" by simp
    then have "spec_type (eqs ! (i - length ineqs)) = ''eq''" by (simp add: eqs_def)
    then show ?thesis using that j by (simp add: g_def nth_append Constraint_def)
  qed
  have e: "get_constraints (Some []) = (Some [], 0, 0)" by (simp add: get_constraints_def)
  have n: "get_constraints None = (None, 0, 0)" by (simp add: get_constraints_def)
  show ?thesis
    using run lg lo hi e n unfolding g_def ineqs_def eqs_def by blast
qed

theorem get_constraints_ordered_witness:
  "(let e1 = \<lparr>spec_type = ''eq'', spec_fun = (\<lambda>x. x ! 0), spec_grad = None\<rparr>;
        i1 = \<lparr>spec_type = ''ineq'', spec_fun = (\<lambda>x. x ! 1), spec_grad = None\<rparr>;
        i2 = \<lparr>spec_type = ''ineq'', spec_fun = (\<lambda>x. x ! 0 + x ! 1), spec_grad = None\<rparr>
    in get_constraints (Some [e1, i1, i2])
         = (Some [Constraint i1, Constraint i2, Constraint e1], 3, 2))"
  using get_constraints_ordered[of "[\<lparr>spec_type = ''eq'', spec_fun = (\<lambda>x. x ! 0), spec_grad = None\<rparr>,
        \<lparr>spec_type = ''ineq'', spec_fun = (\<lambda>x. x ! 1), spec_grad = None\<rparr>,
        \<lparr>spec_type = ''ineq'', spec_fun = (\<lambda>x. x ! 0 + x ! 1), spec_grad = None\<rparr>]"]
  by (simp add: Let_def)

subsection \<open>Binding set of a GRG iteration\<close>

lemma n_true_simps [simp]:
  "n_true [] = 0" "n_true (b # bs) = (if b then Suc (n_true bs) else n_true bs)"
  "n_true (xs @ ys) = n_true xs + n_true ys" "n_true (replicate k True) = k"
  by (simp_all add: n_true_def)

lemma n_true_le_length: "n_true bs \<le> length bs"
  by (simp add: n_true_def)

lemma n_true_take_mono: "i \<le> j \<Longrightarrow> n_true (take i bs) \<le> n_true (take j bs)"
proof -
  assume "i \<le> j"
  then have "take j bs = take i bs @ take (j - i) (drop i bs)"
    by (metis le_add_diff_inverse take_add)
  then show ?thesis by simp
qed

lemma unbind_length [simp]: "length (unbind u e bs) = length bs"
  by (induction bs arbitrary: u) simp_all

lemma unbind_nth:
  "i < length bs \<Longrightarrow> unbind u e bs ! i = (bs ! i \<and> e - u \<le> n_true (take i bs))"
proof (induction bs arbitrary: u i)
  case Nil
  then show ?case by simp
next
  case (Cons b bs)
  show ?case
  proof (cases i)
    case 0
    then show ?thesis by auto
  next
    case (Suc j)
    with Cons.prems have j: "j < length bs" by simp
    show ?thesis using Cons.IH[OF j] Suc by auto
  qed
qed

lemma unbind_n_true: "n_true (unbind u e bs) = n_true bs - (e - u)"
  by (induction bs arbitrary: u) auto

lemma unbind_dropped_count:
  "length (filter (\<lambda>(a, b). a \<and> \<not> b) (zip bs (unbind u e bs))) = min (e - u) (n_true bs)"
  by (induction bs arbitrary: u) auto

lemma dropped_card:
  "card {i. i < length bs \<and> bs ! i \<and> \<not> unbind u e bs ! i} = min (e - u) (n_true bs)"
proof -
  have "{i. i < length bs \<and> bs ! i \<and> \<not> unbind u e bs ! i}
      = {i. i < length (zip bs (unbind u e bs)) \<and> (\<lambda>(a, b). a \<and> \<not> b) (zip bs (unbind u e bs) ! i)}"
    by auto
  then show ?thesis
    using unbind_dropped_count[of bs u e] length_filter_conv_card[of "\<lambda>(a, b). a \<and> \<not> b" "zip bs (unbind u e bs)"]
    by simp
qed

text \<open>
  Claim C4. In a GRG iteration whose binding count exceeds the number of design variables,
  the constraints that lose their mark are exactly the first \<open>n_binding - n_vars\<close> binding
  ones in scan order. When the constraint list has its \<open>n_ineq_cstr\<close> inequalities first and
  there are at most \<open>n_vars\<close> equality constraints, each of them is an inequality
  constraint, every equality constraint stays binding, and exactly \<open>n_vars\<close> constraints
  are binding afterwards.
\<close>

theorem grg_drops_excess_inequalities:
  assumes len: "length g0 = n_cstr" and ord: "n_ineq_cstr \<le> n_cstr"
    and eqs: "n_cstr - n_ineq_cstr \<le> n_vars"
    and flags: "binding_flags g0 n_cstr n_ineq_cstr tol = Inr cstr_b"
    and over: "n_true cstr_b > n_vars"
  shows "\<exists>r. grg_binding g0 n_vars n_cstr n_ineq_cstr tol = Inr (r, n_vars)
           \<and> length r = n_cstr
           \<and> (\<forall>i < n_cstr. r ! i = (cstr_b ! i \<and> n_true cstr_b - n_vars \<le> n_true (take i cstr_b)))
           \<and> card {i. i < n_cstr \<and> cstr_b ! i \<and> \<not> r ! i} = n_true cstr_b - n_vars
           \<and> (\<forall>i < n_cstr. cstr_b ! i \<and> \<not> r ! i \<longrightarrow> i < n_ineq_cstr)
           \<and> (\<forall>i. n_ineq_cstr \<le> i \<and> i < n_cstr \<longrightarrow> r ! i)
           \<and> n_true r = n_vars"
proof -
  define ineqs where "ineqs = map (\<lambda>v. v \<le> tol) (take n_ineq_cstr g0)"
  define r where "r = unbind 0 (n_true cstr_b - n_vars) cstr_b"
  have cb: "cstr_b = ineqs @ replicate (n_cstr - n_ineq_cstr) True"
    using flags by (auto simp: binding_flags_def Let_def ineqs_def split: if_splits)
  have li: "length ineqs = n_ineq_cstr" using len ord by (simp add: ineqs_def)
  have lc: "length cstr_b = n_cstr" using li ord by (simp add: cb)
  have nt: "n_true cstr_b = n_true ineqs + (n_cstr - n_ineq_cstr)" by (simp add: cb)
  have ne: "cstr_b \<noteq> []" using over by (auto simp: n_true_def)
  have run: "grg_binding g0 n_vars n_cstr n_ineq_cstr tol = Inr (r, n_true r)"
    using flags over ne by (simp add: grg_binding_def r_def Let_def)
  have cnt: "n_true r = n_vars"
    using over by (simp add: r_def unbind_n_true)
  have nth: "\<forall>i < n_cstr. r ! i = (cstr_b ! i \<and> n_true cstr_b - n_vars \<le> n_true (take i cstr_b))"
    using lc by (simp add: r_def unbind_nth)
  have keep: "r ! i" if "n_ineq_cstr \<le> i" "i < n_cstr" for i
  proof -
    have "cstr_b ! i" using that li by (simp add: cb nth_append)
    moreover have "n_true (take n_ineq_cstr cstr_b) = n_true ineqs" using li by (simp add: cb)
    then have "n_true ineqs \<le> n_true (take i cstr_b)"
      using n_true_take_mono[OF that(1), of cstr_b] by simp
    then have "n_true cstr_b - n_vars \<le> n_true (take i cstr_b)" using nt eqs by linarith
    ultimately show ?thesis using nth that(2) by simp
  qed
  have card: "card {i. i < n_cstr \<and> cstr_b ! i \<and> \<not> r ! i} = n_true cstr_b - n_vars"
    using dropped_card[of cstr_b 0 "n_true cstr_b - n_vars"] lc by (simp add: r_def)
  have drop: "\<forall>i < n_cstr. cstr_b ! i \<and> \<not> r ! i \<longrightarrow> i < n_ineq_cstr"
    using keep by (meson not_le)
  show ?thesis
    using run cnt nth keep card drop lc by (intro exI[of _ r]) (simp add: r_def)
qed

theorem grg_drops_excess_inequalities_witness:
  "length [0, 0, 5 :: real] = 3 \<and> (2::nat) \<le> 3 \<and> (3::nat) - 2 \<le> 2
   \<and> binding_flags [0, 0, 5] 3 2 (1 / 10000) = Inr [True, True, True]
   \<and> n_true [True, True, True] > 2
   \<and> grg_binding [0, 0, 5] 2 3 2 (1 / 10000) = Inr ([False, True, True], 2)"
proof -
  have f: "binding_flags [0, 0, 5] 3 2 (1 / 10000) = Inr [True, True, True]"
    by (simp add: binding_flags_def)
  have "grg_binding [0, 0, 5] 2 3 2 (1 / 10000) = Inr ([False, True, True], 2)"
    by (simp add: grg_binding_def f)
  then show ?thesis
    using f grg_drops_excess_inequalities[of "[0, 0, 5]" 3 2 2 "1 / 10000" "[True, True, True]"]
    by simp
qed

subsection \<open>The optimal step of a line search\<close>

lemma py_index_in_range: "i < length xs \<Longrightarrow> py_index xs (int i) = Inr (xs ! i)"
  by (simp add: py_index_def)

lemma bracket_step_interior:
  assumes "0 < min_ind" "min_ind + 1 < length a" "min_ind + 1 < length f_search"
    and "spec_divisor (a ! (min_ind - 1)) (a ! min_ind) (a ! (min_ind + 1))
           (f_search ! (min_ind - 1)) (f_search ! min_ind) (f_search ! (min_ind + 1)) \<noteq> 0"
  shows "bracket_step a f_search min_ind =
           Inr (spec_clamped (a ! (min_ind - 1)) (a ! min_ind) (a ! (min_ind + 1))
                 (spec_quotient (a ! (min_ind - 1)) (a ! min_ind) (a ! (min_ind + 1))
                    (f_search ! (min_ind - 1)) (f_search ! min_ind) (f_search ! (min_ind + 1))))"
proof -
  have i: "py_index a (int min_ind - 1) = Inr (a ! (min_ind - 1))"
          "py_index a (int min_ind) = Inr (a ! min_ind)"
          "py_index a (int min_ind + 1) = Inr (a ! (min_ind + 1))"
          "py_index f_search (int min_ind - 1) = Inr (f_search ! (min_ind - 1))"
          "py_index f_search (int min_ind) = Inr (f_search ! min_ind)"
          "py_index f_search (int min_ind + 1) = Inr (f_search ! (min_ind + 1))"
    using assms(1-3) by (auto simp: py_index_def nat_diff_distrib nat_add_distrib)
  show ?thesis
    unfolding bracket_step_def i using assms(4)
    by (auto simp: spec_divisor_def spec_quotient_def spec_clamped_def Let_def mult.commute)
qed

text \<open>
  Claim C5. Whenever the bracket fallback is used (bracketing is selected, or the quadratic
  fit is rejected for a missing or negative vertex, for non-convexity or for an R-squared below
  \<open>rsq_tol\<close>), the minimum index is interior and the quotient is defined, the step
  returned is the quotient of the specification, with the literal \<open>2 \<cdot> a3\<close> in its first
  term, replaced by \<open>a2\<close> when it lies outside \<open>[a1, a3]\<close>; both generations return the
  same value.
\<close>

theorem bracket_fallback_step:
  assumes "0 < min_ind" "min_ind + 1 < length a" "min_ind + 1 < length f_search"
    and "bracket_fallback st (fit a f_search)"
    and "spec_divisor (a ! (min_ind - 1)) (a ! min_ind) (a ! (min_ind + 1))
           (f_search ! (min_ind - 1)) (f_search ! min_ind) (f_search ! (min_ind + 1)) \<noteq> 0"
  shows "find_opt_alpha_pkg fit st a f_search min_ind =
           Inr (spec_clamped (a ! (min_ind - 1)) (a ! min_ind) (a ! (min_ind + 1))
                 (spec_quotient (a ! (min_ind - 1)) (a ! min_ind) (a ! (min_ind + 1))
                    (f_search ! (min_ind - 1)) (f_search ! min_ind) (f_search ! (min_ind + 1))))
       \<and> find_opt_alpha fit st a f_search min_ind = find_opt_alpha_pkg fit st a f_search min_ind"
proof -
  have "find_opt_alpha_pkg fit st a f_search min_ind = bracket_step a f_search min_ind"
    using assms(4) by (auto simp: find_opt_alpha_pkg_def bracket_fallback_def Let_def split: option.splits)
  moreover have "find_opt_alpha fit st a f_search min_ind = find_opt_alpha_pkg fit st a f_search min_ind"
    by (simp add: find_opt_alpha_pkg_def find_opt_alpha_def)
  ultimately show ?thesis
    using bracket_step_interior[OF assms(1-3) assms(5)] by simp
qed

theorem bracket_fallback_step_witness:
  "find_opt_alpha_pkg (\<lambda>a f. \<lparr>vertex = None, convex = False, rsq = 0\<rparr>) default_settings
      [0, 1, 2, 3] [3, 1, 2, 5] 1 = Inr (7 / 10)
   \<and> find_opt_alpha (\<lambda>a f. \<lparr>vertex = None, convex = False, rsq = 0\<rparr>) default_settings
      [0, 1, 2, 3] [3, 1, 2, 5] 1 = Inr (7 / 10)"
  using bracket_fallback_step[of 1 "[0, 1, 2, 3]" "[3, 1, 2, 5]" default_settings
      "\<lambda>a f. \<lparr>vertex = None, convex = False, rsq = 0\<rparr>"]
  by (simp add: bracket_fallback_def default_settings_def spec_divisor_def spec_quotient_def
      spec_clamped_def power2_eq_square)

subsection \<open>The orchestrator\<close>

lemma eq_entries_le:
  "length (filter (\<lambda>c. spec_type c = ''eq'') cs)
     \<le> length cs - length (filter (\<lambda>c. spec_type c = ''ineq'') cs)"
  by (induction cs) (auto simp: Suc_diff_le)

text \<open>
  Claim C2. Whenever the supplied constraints hold more equality constraints than there
  are design variables (and the worker pool, of at least one process, can be created),
  \<^verbatim>\<open>minimize\<close> ends with the overconstrained-problem error, and up to that point no
  objective or constraint has been evaluated and no output file has been created; no
  driver has run. This holds for both generations, which differ in the kind of the error.
\<close>

theorem overconstrained_rejected:
  assumes "length (filter (\<lambda>c. spec_type c = ''eq'') cs) > length x0"
    and "max_processes st \<ge> 1"
  shows "(\<exists>tr. minimize_pkg D f x0 st (Some cs)
               = (tr, Inl (IOError ''There are too many equality constraints; the problem is overconstrained.''))
             \<and> list_all (\<lambda>ev. \<not> is_evaluation ev \<and> \<not> is_file_creation ev) tr)
       \<and> (\<exists>tr. minimize D f x0 st (Some cs) = (tr, Inl (ValueError ''The problem is overconstrained''))
             \<and> list_all (\<lambda>ev. \<not> is_evaluation ev \<and> \<not> is_file_creation ev) tr)"
proof -
  have "int (length cs) - int (length (filter (\<lambda>c. spec_type c = ''ineq'') cs)) > int (length x0)"
    using assms(1) eq_entries_le[of cs] by linarith
  then show ?thesis
    using assms(2) by (simp add: minimize_pkg_def minimize_def get_constraints_Some Let_def)
qed

theorem overconstrained_rejected_witness:
  "minimize_pkg probe_drivers zero_objective [1, 2] default_settings
      (Some [eq_spec, eq_spec, eq_spec])
    = ([PoolCreate 1, PoolExit],
       Inl (IOError ''There are too many equality constraints; the problem is overconstrained.''))
   \<and> minimize probe_drivers zero_objective [1, 2] default_settings
      (Some [eq_spec, eq_spec, eq_spec])
    = ([PoolCreate 1, PoolExit], Inl (ValueError ''The problem is overconstrained''))"
proof -
  have a: "length (filter (\<lambda>c. spec_type c = ''eq'') [eq_spec, eq_spec, eq_spec]) > length [1, 2 :: real]"
    by (simp add: eq_spec_def)
  have b: "max_processes default_settings \<ge> 1" by (simp add: default_settings_def)
  show ?thesis
    using overconstrained_rejected[OF a b, of probe_drivers zero_objective]
    by (auto simp: minimize_pkg_def minimize_def get_constraints_Some Let_def eq_spec_def default_settings_def)
qed

lemma drive_run:
  "\<exists>tr1 tr2. drive D f g x st =
      (tr1 @ fst (find_minimum D f g x (snd (format_output_files st))) @ tr2,
       snd (find_minimum D f g x (snd (format_output_files st))))"
proof -
  obtain files st' where fo: "format_output_files st = (files, st')"
    by (cases "format_output_files st")
  obtain tr opt where fm: "find_minimum D f g x st' = (tr, opt)"
    by (cases "find_minimum D f g x st'")
  define before where
    "before = (if max_processes st' > 1 then [WriterStart (''evaluations'' @ file_tag st' @ ''.txt'')] else [])"
  show ?thesis
  proof (cases opt)
    case (Inl e)
    then have "drive D f g x st = ((files @ before) @ tr @ [PoolExit], opt)"
      using fo fm by (simp add: drive_def Let_def before_def)
    then show ?thesis using fo fm
      by (intro exI[of _ "files @ before"] exI[of _ "[PoolExit]"]) simp
  next
    case (Inr r)
    define after where
      "after = (if max_processes st' = 1 then [WriterStart (''evaluations'' @ file_tag st' @ ''.txt'')] else [])"
    from Inr have "drive D f g x st = ((files @ before) @ tr @ (after @ [QueuePut ''kill'', PoolExit]), opt)"
      using fo fm by (simp add: drive_def Let_def before_def after_def)
    then show ?thesis using fo fm
      by (intro exI[of _ "files @ before"] exI[of _ "after @ [QueuePut ''kill'', PoolExit]"]) simp
  qed
qed

lemma format_output_files_method [simp]:
  "s_method (snd (format_output_files st)) = s_method st"
  "s_n_cstr (snd (format_output_files st)) = s_n_cstr st"
  "s_n_ineq_cstr (snd (format_output_files st)) = s_n_ineq_cstr st"
  by (simp_all add: format_output_files_def Let_def)

lemma minimize_pkg_run:
  assumes "max_processes st \<ge> 1"
    and "\<not> int (fst (snd (get_constraints constraints))) - int (snd (snd (get_constraints constraints)))
            > int (length x0)"
  shows "\<exists>tr1 tr2. minimize_pkg D f x0 st constraints =
      (tr1 @ fst (find_minimum D f (fst (get_constraints constraints)) x0
                   (snd (format_output_files
                      (st\<lparr>s_method := (if constraints = None then ''bfgs'' else s_method st),
                          s_n_cstr := fst (snd (get_constraints constraints)),
                          s_n_ineq_cstr := snd (snd (get_constraints constraints))\<rparr>)))) @ tr2,
       snd (find_minimum D f (fst (get_constraints constraints)) x0
                   (snd (format_output_files
                      (st\<lparr>s_method := (if constraints = None then ''bfgs'' else s_method st),
                          s_n_cstr := fst (snd (get_constraints constraints)),
                          s_n_ineq_cstr := snd (snd (get_constraints constraints))\<rparr>)))))"
proof -
  define st' where "st' = st\<lparr>s_method := (if constraints = None then ''bfgs'' else s_method st),
                          s_n_cstr := fst (snd (get_constraints constraints)),
                          s_n_ineq_cstr := snd (snd (get_constraints constraints))\<rparr>"
  obtain tr1 tr2 where d: "drive D f (fst (get_constraints constraints)) x0 st' =
      (tr1 @ fst (find_minimum D f (fst (get_constraints constraints)) x0 (snd (format_output_files st'))) @ tr2,
       snd (find_minimum D f (fst (get_constraints constraints)) x0 (snd (format_output_files st'))))"
    using drive_run by blast
  have "minimize_pkg D f x0 st constraints =
      (PoolCreate (max_processes st) # fst (drive D f (fst (get_constraints constraints)) x0 st'),
       snd (drive D f (fst (get_constraints constraints)) x0 st'))"
    using assms by (auto simp: minimize_pkg_def Let_def st'_def split: prod.splits)
  then have "minimize_pkg D f x0 st constraints =
      ((PoolCreate (max_processes st) # tr1)
         @ fst (find_minimum D f (fst (get_constraints constraints)) x0 (snd (format_output_files st'))) @ tr2,
       snd (find_minimum D f (fst (get_constraints constraints)) x0 (snd (format_output_files st'))))"
    using d by simp
  then show ?thesis unfolding st'_def by blast
qed

text \<open>
  Claim C10. The method is replaced by \<^verbatim>\<open>"bfgs"\<close> exactly when the \<^verbatim>\<open>constraints\<close> option
  is absent (\<open>None\<close>): whenever the pool can be created and the problem is not
  overconstrained, the run of \<^verbatim>\<open>minimize\<close> contains the run of the driver selected by
  \<open>dispatched\<close> and returns its result. In particular, with an empty list of constraints
  both counts are zero, the configured method is kept, and the SQP or the GRG driver is
  the one that runs when configured; without the option the BFGS driver runs whatever was
  configured.
\<close>

theorem empty_constraints_keep_method:
  assumes "max_processes st \<ge> 1"
  shows "(\<not> int (fst (snd (get_constraints constraints))) - int (snd (snd (get_constraints constraints)))
              > int (length x0) \<longrightarrow>
          (\<exists>tr1 tr2. minimize_pkg D f x0 st constraints =
             (tr1 @ fst (dispatched D f x0 st constraints) @ tr2,
              snd (dispatched D f x0 st constraints))))
       \<and> get_constraints (Some []) = (Some [], 0, 0)
       \<and> (\<exists>st'. dispatched D f x0 st None = drv_bfgs D f x0 st' \<and> s_method st' = ''bfgs'')
       \<and> (s_method st = ''sqp'' \<longrightarrow>
            (\<exists>st'. dispatched D f x0 st (Some []) = drv_sqp D f (Some []) x0 st'
               \<and> s_method st' = ''sqp'' \<and> s_n_cstr st' = 0 \<and> s_n_ineq_cstr st' = 0))
       \<and> (s_method st = ''grg'' \<longrightarrow>
            (\<exists>st'. dispatched D f x0 st (Some []) = drv_grg D f (Some []) x0 st'
               \<and> s_method st' = ''grg'' \<and> s_n_cstr st' = 0 \<and> s_n_ineq_cstr st' = 0))"
proof -
  have run: "\<not> int (fst (snd (get_constraints constraints))) - int (snd (snd (get_constraints constraints)))
              > int (length x0) \<longrightarrow>
          (\<exists>tr1 tr2. minimize_pkg D f x0 st constraints =
             (tr1 @ fst (dispatched D f x0 st constraints) @ tr2,
              snd (dispatched D f x0 st constraints)))"
    using minimize_pkg_run[OF assms, where constraints = constraints and ?x0.0 = x0 and D = D and f = f]
    unfolding dispatched_def by blast
  have e: "get_constraints (Some []) = (Some [], 0, 0)" by (simp add: get_constraints_def)
  have n: "get_constraints None = (None, 0, 0)" by (simp add: get_constraints_def)
  have b: "\<exists>st'. dispatched D f x0 st None = drv_bfgs D f x0 st' \<and> s_method st' = ''bfgs''"
    unfolding dispatched_def n
    by (intro exI[of _ "snd (format_output_files (st\<lparr>s_method := ''bfgs'', s_n_cstr := 0, s_n_ineq_cstr := 0\<rparr>))"])
       (simp add: find_minimum_def)
  have s: "s_method st = ''sqp'' \<longrightarrow>
            (\<exists>st'. dispatched D f x0 st (Some []) = drv_sqp D f (Some []) x0 st'
               \<and> s_method st' = ''sqp'' \<and> s_n_cstr st' = 0 \<and> s_n_ineq_cstr st' = 0)"
    unfolding dispatched_def e
    by (intro impI exI[of _ "snd (format_output_files (st\<lparr>s_method := s_method st, s_n_cstr := 0, s_n_ineq_cstr := 0\<rparr>))"])
       (simp add: find_minimum_def)
  have g: "s_method st = ''grg'' \<longrightarrow>
            (\<exists>st'. dispatched D f x0 st (Some []) = drv_grg D f (Some []) x0 st'
               \<and> s_method st' = ''grg'' \<and> s_n_cstr st' = 0 \<and> s_n_ineq_cstr st' = 0)"
    unfolding dispatched_def e
    by (intro impI exI[of _ "snd (format_output_files (st\<lparr>s_method := s_method st, s_n_cstr := 0, s_n_ineq_cstr := 0\<rparr>))"])
       (simp add: find_minimum_def)
  show ?thesis using run e b s g by blast
qed

theorem empty_constraints_keep_method_witness:
  "minimize_pkg probe_drivers zero_objective [1, 2] (default_settings\<lparr>s_method := ''sqp''\<rparr>) (Some [])
     = ([PoolCreate 1, CreateFile ''optimize.txt'', CreateFile ''gradient.txt'', ObjEval [1, 2],
         WriterStart ''evaluations.txt'', QueuePut ''kill'', PoolExit],
        Inr \<lparr>res_f = Fin 0, res_x = [1, 2], success = True, message = ''sqp'', res_iter = 0,
            obj_calls = 1, cstr_calls = []\<rparr>)
   \<and> snd (dispatched probe_drivers zero_objective [1, 2] (default_settings\<lparr>s_method := ''sqp''\<rparr>) (Some []))
     = Inr \<lparr>res_f = Fin 0, res_x = [1, 2], success = True, message = ''sqp'', res_iter = 0,
            obj_calls = 1, cstr_calls = []\<rparr>
   \<and> snd (dispatched probe_drivers zero_objective [1, 2] (default_settings\<lparr>s_method := ''sqp''\<rparr>) None)
     = Inr \<lparr>res_f = Fin 0, res_x = [1, 2], success = True, message = ''bfgs'', res_iter = 0,
            obj_calls = 1, cstr_calls = []\<rparr>"
proof -
  have m: "max_processes (default_settings\<lparr>s_method := ''sqp''\<rparr>) \<ge> 1"
    by (simp add: default_settings_def)
  show ?thesis
    using empty_constraints_keep_method[OF m, where constraints = "Some []" and ?x0.0 = "[1, 2]"
        and D = probe_drivers and f = zero_objective]
    by (simp add: minimize_pkg_def drive_def format_output_files_def find_minimum_def
        dispatched_def get_constraints_def probe_drivers_def zero_objective_def
        default_settings_def Let_def)
qed

subsection \<open>The active-set step of SQP\<close>

lemma scatter_zero:
  "scatter bs vs = Some l \<Longrightarrow> length l = length bs \<and> (\<forall>k < length bs. \<not> bs ! k \<longrightarrow> l ! k = 0)"
proof (induction bs vs arbitrary: l rule: scatter.induct)
  case (3 bs vs)
  then obtain r where r: "scatter bs vs = Some r" "l = 0 # r" by auto
  with 3 show ?case by (auto simp: nth_Cons split: nat.splits)
next
  case (5 bs v vs)
  then obtain r where r: "scatter bs vs = Some r" "l = v # r" by auto
  with 5 show ?case by (auto simp: nth_Cons split: nat.splits)
qed simp_all

text \<open>
  Values of the sample solver, and what the loop body computes for the combinations of
  the sample problems.
\<close>

lemma cramer_3: "cramer [[1, 0, 0], [0, 1, - 1], [0, 1, 0]] [1, 1, 0] = Some [1, 0, - 1]"
  by code_simp

lemma cramer_4: "cramer [[1, 0, 1, 0], [0, 1, 0, - 1], [- 1, 0, 0, 0], [0, 1, 0, 0]] [1, 1, - 2, 0]
   = Some [2, 0, - 1, - 1]"
  by code_simp

lemma sample_True: "sample_try [True] = Inr (Some \<lparr>cand_b = [True], cand_delta_x = [3 / 4], cand_l = [- (11 / 4)],
     cand_x1 = [5 / 4], cand_g1 = [- (9 / 16)]\<rparr>)"
  by (simp add: sample_try_def try_combo_def skipped_def get_x_lambda_def masked_def
      sample_linalg_def cramer_def eval_constr_def power2_eq_square n_true_def)

lemma sample_False: "sample_try [False] = Inr (Some \<lparr>cand_b = [False], cand_delta_x = [- 2], cand_l = [0],
     cand_x1 = [- (3 / 2)], cand_g1 = [- (5 / 4)]\<rparr>)"
  by (simp add: sample_try_def try_combo_def skipped_def get_x_lambda_def masked_def
      sample_linalg_def cramer_def eval_constr_def power2_eq_square n_true_def)

lemma flat_True: "flat_try [True] = Inl LinAlgError"
  by (simp add: flat_try_def try_combo_def skipped_def get_x_lambda_def masked_def
      sample_linalg_def cramer_def eval_constr_def n_true_def)

lemma flat_False: "flat_try [False] = Inr (Some \<lparr>cand_b = [False], cand_delta_x = [- 2], cand_l = [0],
     cand_x1 = [- 2], cand_g1 = [1]\<rparr>)"
  by (simp add: flat_try_def try_combo_def skipped_def get_x_lambda_def masked_def
      sample_linalg_def cramer_def eval_constr_def n_true_def)

lemma parallel_TT: "parallel_try [True, True] = Inr None"
  by (simp add: parallel_try_def try_combo_def skipped_def masked_def
      sample_linalg_def gram_svd_def inner_prod_def n_true_def Let_def)

lemma mixed_TT: "mixed_try [True, True] = Inr (Some \<lparr>cand_b = [True, True], cand_delta_x = [2, 0],
     cand_l = [- 1, - 1], cand_x1 = [2, 0], cand_g1 = [0, 0]\<rparr>)"
  using cramer_4
  by (simp add: mixed_try_def try_combo_def skipped_def get_x_lambda_def masked_def
      sample_linalg_def gram_svd_def inner_prod_def eval_constr_def n_true_def Let_def)

lemma mixed_FT: "mixed_try [False, True] = Inr (Some \<lparr>cand_b = [False, True], cand_delta_x = [1, 0],
     cand_l = [0, - 1], cand_x1 = [1, 0], cand_g1 = [1, 0]\<rparr>)"
  using cramer_3
  by (simp add: mixed_try_def try_combo_def skipped_def get_x_lambda_def masked_def
      sample_linalg_def eval_constr_def n_true_def Let_def)

lemma early_TT: "early_try [True, True] = Inr None"
  by (simp add: early_try_def try_combo_def skipped_def n_true_def)

lemma early_TF: "early_try [True, False] = Inr (Some \<lparr>cand_b = [True, False], cand_delta_x = [1],
     cand_l = [1, 0], cand_x1 = [1], cand_g1 = [0, 4]\<rparr>)"
  by (simp add: early_try_def try_combo_def skipped_def get_x_lambda_def masked_def
      sample_linalg_def cramer_def eval_constr_def n_true_def Let_def power2_eq_square)

lemma early_FT: "early_try [False, True] = Inl LinAlgError"
  by (simp add: early_try_def try_combo_def skipped_def get_x_lambda_def masked_def
      sample_linalg_def cramer_def eval_constr_def n_true_def Let_def)

lemma poss_combos_samples:
  "poss_combos 1 1 = [[True], [False]]"
  "poss_combos 2 0 = [[True, True]]"
  "poss_combos 2 1 = [[True, True], [False, True]]"
  "poss_combos 2 2 = [[True, True], [True, False], [False, True], [False, False]]"
  "poss_combos (Suc 0) (Suc 0) = [[True], [False]]"
  "poss_combos 2 (Suc 0) = [[True, True], [False, True]]"
  by (simp_all add: poss_combos_def numeral_2_eq_2)

lemmas sqp_eval = tried_before_def relaxed_choice_def stated_choice_def no_raise_def
  accepts_ab_def accepts_a_def accepts_b_def nonbinding_violated_def negative_multiplier_def
  masked_def poss_combos_samples

lemma sample_choice:
  "get_delta_x_choice sample_linalg [1 / 2] [\<lambda>x. 1 - (x ! 0)\<^sup>2] 1 1 1 [[1]] [2] [[- 1]] [3 / 4]
     = Inr \<lparr>cand_b = [False], cand_delta_x = [- 2], cand_l = [0],
            cand_x1 = [- (3 / 2)], cand_g1 = [- (5 / 4)]\<rparr>"
  unfolding get_delta_x_choice_def poss_combos_samples(1) sample_try_def[symmetric]
  by (simp add: sample_True sample_False nonbinding_violated_def negative_multiplier_def masked_def)

lemma flat_choice:
  "get_delta_x_choice sample_linalg [0] [\<lambda>x. 1] 1 1 1 [[1]] [2] [[0]] [1] = Inl LinAlgError"
  unfolding get_delta_x_choice_def poss_combos_samples(1) flat_try_def[symmetric]
  by (simp add: flat_True)

lemma parallel_choice:
  "get_delta_x_choice sample_linalg [0, 0] [\<lambda>x. x ! 0, \<lambda>x. x ! 0] 2 2 0 [[1, 0], [0, 1]] [1, 1]
       [[1, 1], [0, 0]] [0, 0] = Inl (UnboundLocalError ''x1'')"
  unfolding get_delta_x_choice_def poss_combos_samples(2) parallel_try_def[symmetric]
  by (simp add: parallel_TT)

text \<open>
  The loops as searches: the first loop stops at the first combination that passes (a)
  and (b), provided that no combination before it raises; if it runs to its end, the
  second loop stops at the first combination that passes (b).
\<close>

lemma first_pass_found:
  assumes "no_raise tryc (takeWhile (\<lambda>c. \<not> accepts_ab tryc n c) combos)"
    and "find (accepts_ab tryc n) combos = Some b"
  shows "\<exists>c. first_pass tryc n combos cur = Inr (True, Some c) \<and> tryc b = Inr (Some c)"
  using assms
proof (induction combos arbitrary: cur)
  case Nil
  then show ?case by simp
next
  case (Cons a combos)
  then show ?case
    by (cases "tryc a") (auto simp: no_raise_def accepts_ab_def split: option.splits if_splits)
qed

lemma first_pass_none:
  assumes "no_raise tryc combos" "find (accepts_ab tryc n) combos = None"
  shows "\<exists>cur'. first_pass tryc n combos cur = Inr (False, cur')"
  using assms
proof (induction combos arbitrary: cur)
  case Nil
  then show ?case by simp
next
  case (Cons a combos)
  then show ?case
    by (cases "tryc a") (auto simp: no_raise_def accepts_ab_def split: option.splits if_splits)
qed

lemma second_pass_found:
  assumes "no_raise tryc combos" "find (accepts_b tryc n) combos = Some b"
  shows "\<exists>c. second_pass tryc n combos cur = Inr (Some c) \<and> tryc b = Inr (Some c)"
  using assms
proof (induction combos arbitrary: cur)
  case Nil
  then show ?case by simp
next
  case (Cons a combos)
  then show ?case
    by (cases "tryc a") (auto simp: no_raise_def accepts_b_def split: option.splits if_splits)
qed

lemma try_combo_Some:
  assumes "try_combo LA x0 g n_vars n_cstr del_2_L0 del_f0 del_g0 g0 b = Inr (Some c)"
  shows "cand_b c = b \<and> \<not> skipped LA n_vars del_g0 b
         \<and> length (cand_l c) = length b \<and> (\<forall>k < length b. \<not> b ! k \<longrightarrow> cand_l c ! k = 0)"
proof -
  from assms have ns: "\<not> skipped LA n_vars del_g0 b"
    by (auto simp: try_combo_def split: if_splits)
  with assms obtain delta_x l where
    gl: "get_x_lambda LA n_vars n_cstr del_2_L0 del_g0 del_f0 g0 b = Inr (delta_x, l)"
    and c: "cand_b c = b" "cand_l c = l"
    by (auto simp: try_combo_def Let_def split: sum.splits)
  from gl obtain vs where "scatter b vs = Some l"
    by (auto simp: get_x_lambda_def Let_def split: option.splits if_splits)
  then show ?thesis using scatter_zero[of b vs l] ns c by simp
qed

lemma find_first:
  "find P xs = Some x \<Longrightarrow> \<exists>i < length xs. xs ! i = x \<and> P x \<and> (\<forall>j < i. \<not> P (xs ! j))"
  by (auto simp: find_Some_iff)

lemma tried_before_found:
  "find (accepts_ab tryc n) combos = Some b
   \<Longrightarrow> tried_before tryc n combos = takeWhile (\<lambda>c. \<not> accepts_ab tryc n c) combos"
  by (auto simp: tried_before_def list_ex_iff find_Some_iff)

lemma tried_before_none:
  "find (accepts_ab tryc n) combos = None \<Longrightarrow> tried_before tryc n combos = combos"
  by (auto simp: tried_before_def list_ex_iff find_None_iff)

text \<open>
  Without constraints the only combination is the empty one, and the count of its
  binding constraints raises.
\<close>

lemma get_delta_x_without_constraints:
  "get_delta_x_choice LA x0 g n_vars 0 0 del_2_L0 del_f0 del_g0 g0
     = Inl (AttributeError ''int object has no attribute item'')"
  by (simp add: get_delta_x_choice_def poss_combos_def try_combo_def skipped_def n_true_def
      get_x_lambda_def)

text \<open>
  Claim C3, as stated, fails in three ways. It relaxes the test of the non-binding
  constraints only if no combination passes it: in the first sample problem the
  combination that binds the constraint passes (a) and fails (b), the other one passes
  (b) and fails (a); the wording names no combination, and the loops take the second.
  It skips a combination for a singular value below \<open>1e-14\<close> whatever the number of
  binding constraints, and has every call use a binding set: with the constant
  constraint, the combination that binds it has the singular value \<open>0\<close> and is skipped
  by that wording, which leaves the other combination, passing (a) and (b); the loops
  test the singular values only when more than one constraint is binding, go on to the
  singular system, and the call raises. With the equality constraint given twice the
  only combination is skipped, no step is computed, and the call raises at the first use
  of \<open>x1\<close>.
\<close>

theorem sqp_choice_counterexample:
  "(get_delta_x_choice sample_linalg [1 / 2] [\<lambda>x. 1 - (x ! 0)\<^sup>2] 1 1 1 [[1]] [2] [[- 1]] [3 / 4]
      = Inr \<lparr>cand_b = [False], cand_delta_x = [- 2], cand_l = [0],
             cand_x1 = [- (3 / 2)], cand_g1 = [- (5 / 4)]\<rparr>
    \<and> nonbinding_violated \<lparr>cand_b = [False], cand_delta_x = [- 2], cand_l = [0],
             cand_x1 = [- (3 / 2)], cand_g1 = [- (5 / 4)]\<rparr>
    \<and> accepts_a sample_try [True]
    \<and> stated_choice sample_try 1 (poss_combos 1 1) = None)
   \<and> (get_delta_x_choice sample_linalg [0] [\<lambda>x. 1] 1 1 1 [[1]] [2] [[0]] [1] = Inl LinAlgError
    \<and> poss_combos 1 1 = [[True], [False]]
    \<and> stated_skipped sample_linalg 1 [[0]] [True]
    \<and> \<not> skipped sample_linalg 1 [[0]] [True]
    \<and> flat_try [True] = Inl LinAlgError
    \<and> \<not> stated_skipped sample_linalg 1 [[0]] [False]
    \<and> accepts_ab flat_try 1 [False])
   \<and> (get_delta_x_choice sample_linalg [0, 0] [\<lambda>x. x ! 0, \<lambda>x. x ! 0] 2 2 0 [[1, 0], [0, 1]] [1, 1]
        [[1, 1], [0, 0]] [0, 0] = Inl (UnboundLocalError ''x1'')
    \<and> poss_combos 2 0 = [[True, True]]
    \<and> skipped sample_linalg 2 [[1, 1], [0, 0]] [True, True])"
proof (intro conjI)
  show "get_delta_x_choice sample_linalg [1 / 2] [\<lambda>x. 1 - (x ! 0)\<^sup>2] 1 1 1 [[1]] [2] [[- 1]] [3 / 4]
     = Inr \<lparr>cand_b = [False], cand_delta_x = [- 2], cand_l = [0],
            cand_x1 = [- (3 / 2)], cand_g1 = [- (5 / 4)]\<rparr>"
    by (rule sample_choice)
  show "nonbinding_violated \<lparr>cand_b = [False], cand_delta_x = [- 2], cand_l = [0],
            cand_x1 = [- (3 / 2)], cand_g1 = [- (5 / 4)]\<rparr>"
    by (simp add: nonbinding_violated_def masked_def)
  show "accepts_a sample_try [True]"
    by (simp add: accepts_a_def sample_True nonbinding_violated_def masked_def)
  show "stated_choice sample_try 1 (poss_combos 1 1) = None"
    by (simp add: sqp_eval sample_True sample_False)
  show "get_delta_x_choice sample_linalg [0] [\<lambda>x. 1] 1 1 1 [[1]] [2] [[0]] [1] = Inl LinAlgError"
    by (rule flat_choice)
  show "poss_combos 1 1 = [[True], [False]]"
    by (rule poss_combos_samples)
  show "stated_skipped sample_linalg 1 [[0]] [True]"
    by (simp add: stated_skipped_def sample_linalg_def gram_svd_def masked_def vnorm_def)
  show "\<not> skipped sample_linalg 1 [[0]] [True]"
    by (simp add: skipped_def n_true_def)
  show "flat_try [True] = Inl LinAlgError"
    by (rule flat_True)
  show "\<not> stated_skipped sample_linalg 1 [[0]] [False]"
    by (simp add: stated_skipped_def sample_linalg_def gram_svd_def masked_def n_true_def)
  show "accepts_ab flat_try 1 [False]"
    by (simp add: sqp_eval flat_False)
  show "get_delta_x_choice sample_linalg [0, 0] [\<lambda>x. x ! 0, \<lambda>x. x ! 0] 2 2 0 [[1, 0], [0, 1]] [1, 1]
        [[1, 1], [0, 0]] [0, 0] = Inl (UnboundLocalError ''x1'')"
    by (rule parallel_choice)
  show "poss_combos 2 0 = [[True, True]]"
    by (rule poss_combos_samples)
  show "skipped sample_linalg 2 [[1, 1], [0, 0]] [True, True]"
    by (simp add: skipped_def sample_linalg_def gram_svd_def inner_prod_def masked_def
        n_true_def Let_def)
qed

text \<open>
  Claim C3, amended. In a call where none of the combinations that the loops go through
  before the accepted one makes the loop body raise and some combination that is not
  skipped has no negative inequality multiplier, the binding set used for the step is
  the first combination in enumeration order (equality constraints always binding) that
  is not skipped (for more binding constraints than design variables, or, with more
  than one binding constraint, for a singular value below \<open>1e-14\<close>) and that passes (a)
  and (b); if no combination passes both, it is the first combination that is not
  skipped and passes (b). The non-binding constraints have the multiplier zero.
\<close>

theorem sqp_binding_choice:
  fixes LA x0 g n_vars n_cstr del_2_L0 del_f0 del_g0 g0
  defines "tryc \<equiv> try_combo LA x0 g n_vars n_cstr del_2_L0 del_f0 del_g0 g0"
  assumes ok: "no_raise tryc (tried_before tryc n_ineq_cstr (poss_combos n_cstr n_ineq_cstr))"
    and ch: "relaxed_choice tryc n_ineq_cstr (poss_combos n_cstr n_ineq_cstr) = Some b"
  shows "\<exists>c i. get_delta_x_choice LA x0 g n_vars n_cstr n_ineq_cstr del_2_L0 del_f0 del_g0 g0 = Inr c
           \<and> tryc b = Inr (Some c) \<and> cand_b c = b
           \<and> i < length (poss_combos n_cstr n_ineq_cstr) \<and> poss_combos n_cstr n_ineq_cstr ! i = b
           \<and> \<not> skipped LA n_vars del_g0 b
           \<and> \<not> negative_multiplier n_ineq_cstr c
           \<and> ((\<not> nonbinding_violated c
                 \<and> (\<forall>j < i. \<not> accepts_ab tryc n_ineq_cstr (poss_combos n_cstr n_ineq_cstr ! j)))
               \<or> (list_all (\<lambda>b'. \<not> accepts_ab tryc n_ineq_cstr b') (poss_combos n_cstr n_ineq_cstr)
                 \<and> (\<forall>j < i. \<not> accepts_b tryc n_ineq_cstr (poss_combos n_cstr n_ineq_cstr ! j))))
           \<and> length (cand_l c) = length b
           \<and> (\<forall>k < length b. \<not> b ! k \<longrightarrow> cand_l c ! k = 0)"
proof (cases "find (accepts_ab tryc n_ineq_cstr) (poss_combos n_cstr n_ineq_cstr)")
  case (Some b')
  with ch have bb: "b' = b" by (simp add: relaxed_choice_def)
  have ok': "no_raise tryc (takeWhile (\<lambda>c. \<not> accepts_ab tryc n_ineq_cstr c) (poss_combos n_cstr n_ineq_cstr))"
    using ok tried_before_found[OF Some] by simp
  from first_pass_found[OF ok' Some[unfolded bb], of None] obtain c where
    fp: "first_pass tryc n_ineq_cstr (poss_combos n_cstr n_ineq_cstr) None = Inr (True, Some c)"
    and tb: "tryc b = Inr (Some c)" by blast
  from find_first[OF Some[unfolded bb]] obtain i where
    i: "i < length (poss_combos n_cstr n_ineq_cstr)" "poss_combos n_cstr n_ineq_cstr ! i = b"
       "accepts_ab tryc n_ineq_cstr b"
       "\<forall>j < i. \<not> accepts_ab tryc n_ineq_cstr (poss_combos n_cstr n_ineq_cstr ! j)" by blast
  have run: "get_delta_x_choice LA x0 g n_vars n_cstr n_ineq_cstr del_2_L0 del_f0 del_g0 g0 = Inr c"
    using fp by (simp add: get_delta_x_choice_def tryc_def[symmetric] Let_def)
  have ab: "\<not> nonbinding_violated c" "\<not> negative_multiplier n_ineq_cstr c"
    using i(3) tb by (simp_all add: accepts_ab_def)
  show ?thesis
    using run tb i(1,2,4) ab try_combo_Some[OF tb[unfolded tryc_def]] by blast
next
  case None
  with ch have fb: "find (accepts_b tryc n_ineq_cstr) (poss_combos n_cstr n_ineq_cstr) = Some b"
    by (simp add: relaxed_choice_def)
  have ok': "no_raise tryc (poss_combos n_cstr n_ineq_cstr)"
    using ok tried_before_none[OF None] by simp
  from first_pass_none[OF ok' None, of None] obtain cur where
    fp: "first_pass tryc n_ineq_cstr (poss_combos n_cstr n_ineq_cstr) None = Inr (False, cur)" by blast
  from second_pass_found[OF ok' fb, of cur] obtain c where
    sp: "second_pass tryc n_ineq_cstr (poss_combos n_cstr n_ineq_cstr) cur = Inr (Some c)"
    and tb: "tryc b = Inr (Some c)" by blast
  from find_first[OF fb] obtain i where
    i: "i < length (poss_combos n_cstr n_ineq_cstr)" "poss_combos n_cstr n_ineq_cstr ! i = b"
       "accepts_b tryc n_ineq_cstr b"
       "\<forall>j < i. \<not> accepts_b tryc n_ineq_cstr (poss_combos n_cstr n_ineq_cstr ! j)" by blast
  have run: "get_delta_x_choice LA x0 g n_vars n_cstr n_ineq_cstr del_2_L0 del_f0 del_g0 g0 = Inr c"
    using fp sp by (simp add: get_delta_x_choice_def tryc_def[symmetric] Let_def)
  have nb: "\<not> negative_multiplier n_ineq_cstr c"
    using i(3) tb by (simp add: accepts_b_def)
  have none: "list_all (\<lambda>b'. \<not> accepts_ab tryc n_ineq_cstr b') (poss_combos n_cstr n_ineq_cstr)"
    using None by (simp add: find_None_iff list_all_iff)
  show ?thesis
    using run tb i(1,2,4) nb none try_combo_Some[OF tb[unfolded tryc_def]] by blast
qed

text \<open>
  The theorem at three calls: the problem with an inequality and an equality
  constraint, where the combination that binds both passes the test of the singular
  values and has a negative multiplier; the problem where a combination that the loops
  never reach would make the solver raise; and the first sample problem, where the test
  of the non-binding constraints is dropped.
\<close>

theorem sqp_binding_choice_witness:
  "(no_raise mixed_try (tried_before mixed_try 1 (poss_combos 2 1))
    \<and> relaxed_choice mixed_try 1 (poss_combos 2 1) = Some [False, True]
    \<and> gram_svd [[- 1, 0], [0, 1]] = [1, 1]
    \<and> get_delta_x_choice sample_linalg [0, 0] [\<lambda>x. 2 - x ! 0, \<lambda>x. x ! 1] 2 2 1 [[1, 0], [0, 1]]
         [- 1, - 1] [[- 1, 0], [0, 1]] [2, 0]
       = Inr \<lparr>cand_b = [False, True], cand_delta_x = [1, 0], cand_l = [0, - 1],
              cand_x1 = [1, 0], cand_g1 = [1, 0]\<rparr>)
   \<and> (no_raise early_try (tried_before early_try 2 (poss_combos 2 2))
    \<and> relaxed_choice early_try 2 (poss_combos 2 2) = Some [True, False]
    \<and> early_try [False, True] = Inl LinAlgError
    \<and> get_delta_x_choice sample_linalg [0] [\<lambda>x. 1 - x ! 0, \<lambda>x. 5 - (x ! 0)\<^sup>2] 1 2 2 [[1]] [- 2]
         [[- 1, 0]] [1, 5]
       = Inr \<lparr>cand_b = [True, False], cand_delta_x = [1], cand_l = [1, 0],
              cand_x1 = [1], cand_g1 = [0, 4]\<rparr>)
   \<and> (no_raise sample_try (tried_before sample_try 1 (poss_combos 1 1))
    \<and> relaxed_choice sample_try 1 (poss_combos 1 1) = Some [False]
    \<and> get_delta_x_choice sample_linalg [1 / 2] [\<lambda>x. 1 - (x ! 0)\<^sup>2] 1 1 1 [[1]] [2] [[- 1]] [3 / 4]
       = Inr \<lparr>cand_b = [False], cand_delta_x = [- 2], cand_l = [0],
              cand_x1 = [- (3 / 2)], cand_g1 = [- (5 / 4)]\<rparr>)"
proof (intro conjI)
  show ok1: "no_raise mixed_try (tried_before mixed_try 1 (poss_combos 2 1))"
    by (simp add: sqp_eval mixed_TT mixed_FT)
  show ch1: "relaxed_choice mixed_try 1 (poss_combos 2 1) = Some [False, True]"
    by (simp add: sqp_eval mixed_TT mixed_FT)
  show "gram_svd [[- 1, 0], [0, 1]] = [1, 1]"
    by (simp add: gram_svd_def inner_prod_def)
  from sqp_binding_choice[OF ok1[unfolded mixed_try_def] ch1[unfolded mixed_try_def]]
  obtain c where "get_delta_x_choice sample_linalg [0, 0] [\<lambda>x. 2 - x ! 0, \<lambda>x. x ! 1] 2 2 1
         [[1, 0], [0, 1]] [- 1, - 1] [[- 1, 0], [0, 1]] [2, 0] = Inr c"
    and "mixed_try [False, True] = Inr (Some c)"
    unfolding mixed_try_def by blast
  then show "get_delta_x_choice sample_linalg [0, 0] [\<lambda>x. 2 - x ! 0, \<lambda>x. x ! 1] 2 2 1 [[1, 0], [0, 1]]
         [- 1, - 1] [[- 1, 0], [0, 1]] [2, 0]
       = Inr \<lparr>cand_b = [False, True], cand_delta_x = [1, 0], cand_l = [0, - 1],
              cand_x1 = [1, 0], cand_g1 = [1, 0]\<rparr>"
    by (simp add: mixed_FT)
  show ok2: "no_raise early_try (tried_before early_try 2 (poss_combos 2 2))"
    by (simp add: sqp_eval early_TT early_TF)
  show ch2: "relaxed_choice early_try 2 (poss_combos 2 2) = Some [True, False]"
    by (simp add: sqp_eval early_TT early_TF)
  show "early_try [False, True] = Inl LinAlgError"
    by (rule early_FT)
  from sqp_binding_choice[OF ok2[unfolded early_try_def] ch2[unfolded early_try_def]]
  obtain c where "get_delta_x_choice sample_linalg [0] [\<lambda>x. 1 - x ! 0, \<lambda>x. 5 - (x ! 0)\<^sup>2] 1 2 2
         [[1]] [- 2] [[- 1, 0]] [1, 5] = Inr c"
    and "early_try [True, False] = Inr (Some c)"
    unfolding early_try_def by blast
  then show "get_delta_x_choice sample_linalg [0] [\<lambda>x. 1 - x ! 0, \<lambda>x. 5 - (x ! 0)\<^sup>2] 1 2 2 [[1]] [- 2]
         [[- 1, 0]] [1, 5]
       = Inr \<lparr>cand_b = [True, False], cand_delta_x = [1], cand_l = [1, 0],
              cand_x1 = [1], cand_g1 = [0, 4]\<rparr>"
    by (simp add: early_TF)
  show ok3: "no_raise sample_try (tried_before sample_try 1 (poss_combos 1 1))"
    by (simp add: sqp_eval sample_True sample_False)
  show ch3: "relaxed_choice sample_try 1 (poss_combos 1 1) = Some [False]"
    by (simp add: sqp_eval sample_True sample_False)
  from sqp_binding_choice[OF ok3[unfolded sample_try_def] ch3[unfolded sample_try_def]]
  obtain c where "get_delta_x_choice sample_linalg [1 / 2] [\<lambda>x. 1 - (x ! 0)\<^sup>2] 1 1 1 [[1]] [2]
         [[- 1]] [3 / 4] = Inr c"
    and "sample_try [False] = Inr (Some c)"
    unfolding sample_try_def by blast
  then show "get_delta_x_choice sample_linalg [1 / 2] [\<lambda>x. 1 - (x ! 0)\<^sup>2] 1 1 1 [[1]] [2] [[- 1]] [3 / 4]
       = Inr \<lparr>cand_b = [False], cand_delta_x = [- 2], cand_l = [0],
              cand_x1 = [- (3 / 2)], cand_g1 = [- (5 / 4)]\<rparr>"
    by (simp add: sample_False)
qed

subsection \<open>The line search and the BFGS driver\<close>

lemma vnorm_single [simp]: "vnorm [v] = \<bar>v\<bar>"
  by (simp add: vnorm_def)

lemmas bfgs_eval = vadd_def vsub_def smul_def inner_prod_def matvec_def mscale_def eye_def
  append_file_def iter_lt_def Let_def default_settings_def

text \<open>
  An attempt of the line search with a not-a-number among its samples ends the search
  right after the samples of that attempt, with the error announced only when exactly one
  sample is not a number; a plateau returns the starting point, its value and the step
  as three values.
\<close>

lemma line_search_nan:
  assumes "max_processes st \<ge> 1"
    and "list_ex is_nan (f0 # map (obj_f f) (map (\<lambda>i. vadd x0 (smul (alpha * real i) s)) [1..<n_search st + 1]))"
  shows "line_search (Suc k) fit st f x0 f0 s del_f0 alpha tr =
     Some (tr @ map ObjEval (map (\<lambda>i. vadd x0 (smul (alpha * real i) s)) [1..<n_search st + 1]),
       Inl (if length (nan_indices (f0 # map (obj_f f)
                 (map (\<lambda>i. vadd x0 (smul (alpha * real i) s)) [1..<n_search st + 1]))) = 1
            then ValueError ''Objective function returned a NaN''
            else TypeError ''only integer scalar arrays can be converted to a scalar index''))"
  using assms unfolding line_search_def line_search_loop.simps Let_def by simp

lemma line_search_plateau:
  assumes "max_processes st \<ge> 1"
    and "\<not> list_ex is_nan (f0 # map (obj_f f) (map (\<lambda>i. vadd x0 (smul (alpha * real i) s)) [1..<n_search st + 1]))"
    and "min_list (map fin_of (f0 # map (obj_f f) (map (\<lambda>i. vadd x0 (smul (alpha * real i) s)) [1..<n_search st + 1])))
       = max_list (map fin_of (f0 # map (obj_f f) (map (\<lambda>i. vadd x0 (smul (alpha * real i) s)) [1..<n_search st + 1])))"
  shows "line_search (Suc k) fit st f x0 f0 s del_f0 alpha tr =
     Some (tr @ map ObjEval (map (\<lambda>i. vadd x0 (smul (alpha * real i) s)) [1..<n_search st + 1]),
       Inr (Tuple3 x0 f0 alpha))"
  using assms unfolding line_search_def line_search_loop.simps Let_def by simp

text \<open>
  With no iteration allowed, the driver never returns a result record, whatever the
  objective, the starting point and the bound on the loops are.
\<close>

lemma bfgs_inner_no_budget:
  assumes "\<not> iter_lt (b_iter S) (max_iterations st)"
  shows "bfgs_inner fuel fit st f S = None \<or> bfgs_inner fuel fit st f S = Some (b_trace S, Inr (Leave S))"
  using assms by (cases fuel) simp_all

lemma bfgs_outer_no_budget:
  assumes "\<not> iter_lt (b_iter S) (max_iterations st)" "b_f2 S = None"
  shows "bfgs_outer fuel fit st f S = None
         \<or> bfgs_outer fuel fit st f S = Some (b_trace S, Inl (UnboundLocalError ''f2''))"
  using assms by (cases fuel) simp_all

lemma bfgs_zero_iterations:
  assumes "max_iterations st = Some 0"
  shows "bfgs fuel fit f x_start st \<noteq> Some (tr, Inr r)"
proof (cases fuel)
  case 0
  then show ?thesis by (simp add: bfgs_def)
next
  case (Suc k)
  define S0 where "S0 = \<lparr>b_iter = - 1, b_o_iter = - 1, b_i_iter = 0, b_mag_dx = 1, b_x0 = x_start,
        b_alpha_guess = None, b_f0 = NaN, b_del_f0 = [], b_N0 = [], b_x1 = [], b_f1 = NaN,
        b_delta_x0 = [], b_x2 = None, b_f2 = None, b_trace = []\<rparr>"
  have inner: "bfgs_inner k fit st f S = None \<or> bfgs_inner k fit st f S = Some (b_trace S, Inr (Leave S))"
    if "b_iter S = 0" for S
    using bfgs_inner_no_budget[of S st k fit f] that assms by (simp add: iter_lt_def)
  have outer: "bfgs_outer k fit st f S = None
         \<or> bfgs_outer k fit st f S = Some (b_trace S, Inl (UnboundLocalError ''f2''))"
    if "b_iter S = 0" "b_f2 S = None" for S
    using bfgs_outer_no_budget[of S st k fit f] that assms by (simp add: iter_lt_def)
  show ?thesis
  proof (cases "1 > termination_tol st")
    case False
    then show ?thesis using Suc by (simp add: bfgs_def)
  next
    case True
    define S1 where "S1 = S0\<lparr>b_o_iter := 0, b_i_iter := 0, b_iter := 0, b_f0 := obj_f f x_start,
        b_del_f0 := obj_del_f f x_start, b_N0 := mscale (hess_init st) (eye (length x_start)),
        b_trace := [ObjEval x_start, ObjGrad x_start] @ append_file st,
        b_alpha_guess := Some (alpha_init st)\<rparr>"
    define s0 where "s0 = smul (- 1) (matvec (mscale (hess_init st) (eye (length x_start))) (obj_del_f f x_start))"
    have step: "bfgs fuel fit f x_start st =
      (if vnorm s0 = 0 then Some (b_trace S1, Inl NonFinite)
       else case line_search k fit st f x_start (obj_f f x_start) (map (\<lambda>a. a / vnorm s0) s0)
                   (obj_del_f f x_start) (alpha_init st) (b_trace S1) of
               None \<Rightarrow> None
             | Some (tr, Inl e) \<Rightarrow> Some (tr, Inl e)
             | Some (tr, Inr (Tuple3 x1 f1 alpha)) \<Rightarrow>
                 Some (tr, Inl (ValueError ''not enough values to unpack (expected 4, got 3)''))
             | Some (tr, Inr (Tuple4 x1 f1 alpha wolfe_satis)) \<Rightarrow>
                (case bfgs_inner k fit st f
                        (S1\<lparr>b_x1 := x1, b_f1 := f1, b_delta_x0 := vsub x1 x_start,
                           b_mag_dx := alpha, b_trace := tr\<rparr>) of
                   None \<Rightarrow> None
                 | Some (tr, Inl e) \<Rightarrow> Some (tr, Inl e)
                 | Some (tr, Inr (Return r)) \<Rightarrow> Some (tr, Inr r)
                 | Some (tr, Inr (Leave S')) \<Rightarrow> bfgs_outer k fit st f S'))"
      using Suc True assms
      by (simp add: bfgs_def S0_def S1_def s0_def iter_lt_def Let_def
          cong: option.case_cong sum.case_cong ls_return.case_cong prod.case_cong)
    show ?thesis
    proof (cases "vnorm s0 = 0")
      case True
      then show ?thesis using step by simp
    next
      case False
      show ?thesis
      proof (cases "line_search k fit st f x_start (obj_f f x_start) (map (\<lambda>a. a / vnorm s0) s0)
                   (obj_del_f f x_start) (alpha_init st) (b_trace S1)")
        case None
        then show ?thesis using step False by simp
      next
        case (Some p)
        obtain t res where p: "p = (t, res)" by (cases p)
        show ?thesis
        proof (cases res)
          case (Inl e)
          then show ?thesis using step False Some p by simp
        next
          case (Inr ret)
          show ?thesis
          proof (cases ret)
            case (Tuple3 x1 f1 alpha)
            then show ?thesis using step False Some p Inr by simp
          next
            case (Tuple4 x1 f1 alpha w)
            define S2 where "S2 = S1\<lparr>b_x1 := x1, b_f1 := f1, b_delta_x0 := vsub x1 x_start,
                           b_mag_dx := alpha, b_trace := t\<rparr>"
            have s2: "b_iter S2 = 0" "b_f2 S2 = None" by (simp_all add: S2_def S1_def S0_def)
            have b: "bfgs fuel fit f x_start st =
                (case bfgs_inner k fit st f S2 of
                   None \<Rightarrow> None
                 | Some (tr, Inl e) \<Rightarrow> Some (tr, Inl e)
                 | Some (tr, Inr (Return r)) \<Rightarrow> Some (tr, Inr r)
                 | Some (tr, Inr (Leave S')) \<Rightarrow> bfgs_outer k fit st f S')"
              using step False Some p Inr Tuple4 by (simp add: S2_def)
            from inner[OF s2(1)] show ?thesis
            proof
              assume "bfgs_inner k fit st f S2 = None"
              then show ?thesis using b by simp
            next
              assume "bfgs_inner k fit st f S2 = Some (b_trace S2, Inr (Leave S2))"
              then have "bfgs fuel fit f x_start st = bfgs_outer k fit st f S2" using b by simp
              then show ?thesis using outer[OF s2] by auto
            qed
          qed
        qed
      qed
    qed
  qed
qed

lemma ls_square:
  "line_search (Suc (Suc 0)) no_fit (default_settings\<lparr>max_iterations := Some 0\<rparr>) square_objective [1] (Fin 1)
      [- 1] [2] (1 / 8) [ObjEval [1], ObjGrad [1], AppendFile [], AppendFile []]
   = Some ([ObjEval [1], ObjGrad [1], AppendFile [], AppendFile [], ObjEval [7 / 8],
            ObjEval [3 / 4], ObjEval [5 / 8], ObjEval [1 / 2], ObjEval [3 / 8],
            ObjEval [1 / 4], ObjEval [1 / 8], ObjEval [0], ObjEval [1 / 8],
            ObjEval [- (3 / 4)], ObjEval [- (13 / 8)], ObjEval [- (5 / 2)],
            ObjEval [- (27 / 8)], ObjEval [- (17 / 4)], ObjEval [- (41 / 8)],
            ObjEval [- 6], ObjEval [10 / 67]],
           Inr (Tuple4 [10 / 67] (Fin (100 / 4489)) (57 / 67) True))"
  by code_simp

text \<open>
  Claim C6: every terminating run of the BFGS driver returns a result with
  \<open>success = True\<close> and one of the two messages, and has no other exit. The two
  \<^verbatim>\<open>return\<close> statements do build such results, but the last one reads \<open>f2\<close> and
  \<open>x2\<close>, which only the line search of the inner loop assigns. For the objective
  \<open>x\<^sup>2\<close> started at \<open>1\<close> with \<open>max_iterations = 0\<close> and the other settings at their
  defaults, the first line search succeeds, the iteration bound stops both loops, and the
  run ends with an exception instead of the step-tolerance result.
\<close>

theorem bfgs_unbound_result:
  "bfgs 3 no_fit square_objective [1] (default_settings\<lparr>max_iterations := Some 0\<rparr>)
   = Some ([ObjEval [1], ObjGrad [1], AppendFile [], AppendFile [], ObjEval [7 / 8],
            ObjEval [3 / 4], ObjEval [5 / 8], ObjEval [1 / 2], ObjEval [3 / 8],
            ObjEval [1 / 4], ObjEval [1 / 8], ObjEval [0], ObjEval [1 / 8],
            ObjEval [- (3 / 4)], ObjEval [- (13 / 8)], ObjEval [- (5 / 2)],
            ObjEval [- (27 / 8)], ObjEval [- (17 / 4)], ObjEval [- (41 / 8)],
            ObjEval [- 6], ObjEval [10 / 67]],
           Inl (UnboundLocalError ''f2''))"
  using ls_square
  by (simp add: bfgs_def numeral_3_eq_3 bfgs_eval square_objective_def)

lemma ls_hinge:
  "line_search 1 no_fit default_settings hinge_objective [0] (Fin 0) [1] [- (1 / 2)] (1 / 8)
      [ObjEval [0], ObjGrad [0], AppendFile [], AppendFile []]
     = Some ([ObjEval [0], ObjGrad [0], AppendFile [], AppendFile [],
              ObjEval [1 / 8], ObjEval [2 / 8], ObjEval [3 / 8], ObjEval [4 / 8],
              ObjEval [5 / 8], ObjEval [6 / 8], ObjEval [7 / 8], ObjEval [8 / 8]],
             Inr (Tuple3 [0] (Fin 0) (1 / 8)))"
  by code_simp

text \<open>
  Claim C8: on a plateau the line search returns the starting point and value unchanged
  and the driver proceeds with that point. For the hinge \<open>max(0, -x)\<close> started at \<open>0\<close>
  with the default settings all nine samples are \<open>0\<close>; the line search returns the
  starting point, its value and the step, three values, and the driver, which unpacks
  four, raises instead of proceeding.
\<close>

theorem plateau_breaks_driver:
  "line_search 1 no_fit default_settings hinge_objective [0] (Fin 0) [1] [- (1 / 2)] (1 / 8)
      [ObjEval [0], ObjGrad [0], AppendFile [], AppendFile []]
     = Some ([ObjEval [0], ObjGrad [0], AppendFile [], AppendFile [],
              ObjEval [1 / 8], ObjEval [2 / 8], ObjEval [3 / 8], ObjEval [4 / 8],
              ObjEval [5 / 8], ObjEval [6 / 8], ObjEval [7 / 8], ObjEval [8 / 8]],
             Inr (Tuple3 [0] (Fin 0) (1 / 8)))
   \<and> bfgs 2 no_fit hinge_objective [0] default_settings
     = Some ([ObjEval [0], ObjGrad [0], AppendFile [], AppendFile [],
              ObjEval [1 / 8], ObjEval [2 / 8], ObjEval [3 / 8], ObjEval [4 / 8],
              ObjEval [5 / 8], ObjEval [6 / 8], ObjEval [7 / 8], ObjEval [8 / 8]],
             Inl (ValueError ''not enough values to unpack (expected 4, got 3)''))"
proof
  show "bfgs 2 no_fit hinge_objective [0] default_settings
     = Some ([ObjEval [0], ObjGrad [0], AppendFile [], AppendFile [],
              ObjEval [1 / 8], ObjEval [2 / 8], ObjEval [3 / 8], ObjEval [4 / 8],
              ObjEval [5 / 8], ObjEval [6 / 8], ObjEval [7 / 8], ObjEval [8 / 8]],
             Inl (ValueError ''not enough values to unpack (expected 4, got 3)''))"
    using ls_hinge
    by (simp add: bfgs_def numeral_2_eq_2 bfgs_eval hinge_objective_def hinge_def)
qed (rule ls_hinge)

lemma ls_halfline:
  "line_search 1 no_fit default_settings halfline_objective [1 / 4] (Fin (1 / 4)) [- 1] [1] (1 / 8)
      [ObjEval [1 / 4], ObjGrad [1 / 4], AppendFile [], AppendFile []]
   = Some ([ObjEval [1 / 4], ObjGrad [1 / 4], AppendFile [], AppendFile [],
            ObjEval [1 / 8], ObjEval [0], ObjEval [- (1 / 8)], ObjEval [- (1 / 4)],
            ObjEval [- (3 / 8)], ObjEval [- (1 / 2)], ObjEval [- (5 / 8)],
            ObjEval [- (3 / 4)]],
           Inl (TypeError ''only integer scalar arrays can be converted to a scalar index''))"
  by code_simp

text \<open>
  Claim C9: a not-a-number sample makes the run fail at once with the error
  \<^verbatim>\<open>Objective function returned a NaN\<close>, reporting the offending point, and nothing is
  evaluated afterwards. For the objective that is \<open>x\<close> on \<open>x \<ge> 0\<close> and not a number
  below, started at \<open>1/4\<close> with the default settings, six of the samples of the first
  attempt are not a number. The run does stop after the samples of that attempt, but the
  line that should print the offending points raises a \<^verbatim>\<open>TypeError\<close> first.
\<close>

theorem nan_samples_raise_type_error:
  "nan_indices (map (obj_f halfline_objective)
      [[1 / 4], [1 / 8], [0], [- (1 / 8)], [- (1 / 4)], [- (3 / 8)], [- (1 / 2)], [- (5 / 8)], [- (3 / 4)]])
    = [3, 4, 5, 6, 7, 8]
   \<and> bfgs 2 no_fit halfline_objective [1 / 4] default_settings
     = Some ([ObjEval [1 / 4], ObjGrad [1 / 4], AppendFile [], AppendFile [],
            ObjEval [1 / 8], ObjEval [0], ObjEval [- (1 / 8)], ObjEval [- (1 / 4)],
            ObjEval [- (3 / 8)], ObjEval [- (1 / 2)], ObjEval [- (5 / 8)],
            ObjEval [- (3 / 4)]],
           Inl (TypeError ''only integer scalar arrays can be converted to a scalar index''))"
proof
  show "nan_indices (map (obj_f halfline_objective)
      [[1 / 4], [1 / 8], [0], [- (1 / 8)], [- (1 / 4)], [- (3 / 8)], [- (1 / 2)], [- (5 / 8)], [- (3 / 4)]])
    = [3, 4, 5, 6, 7, 8]"
    by code_simp
  show "bfgs 2 no_fit halfline_objective [1 / 4] default_settings
     = Some ([ObjEval [1 / 4], ObjGrad [1 / 4], AppendFile [], AppendFile [],
            ObjEval [1 / 8], ObjEval [0], ObjEval [- (1 / 8)], ObjEval [- (1 / 4)],
            ObjEval [- (3 / 8)], ObjEval [- (1 / 2)], ObjEval [- (5 / 8)],
            ObjEval [- (3 / 4)]],
           Inl (TypeError ''only integer scalar arrays can be converted to a scalar index''))"
    using ls_halfline
    by (simp add: bfgs_def numeral_2_eq_2 bfgs_eval halfline_objective_def)
qed

subsection \<open>The GRG driver and its line search\<close>

lemma vnorm_pair [simp]: "vnorm [4, 3] = 5" "vnorm [0, 0] = 0"
proof -
  have "sqrt ((5::real)\<^sup>2) = 5" by simp
  then show "vnorm [4, 3] = 5" by (simp add: vnorm_def)
  show "vnorm [0, 0] = 0" by (simp add: vnorm_def)
qed

lemma ls_warning:
  "grg_line_search 16 grg_settings
      (gn_eval_search_point warning_left [0, 0] [0] [True] [- (4 / 5), - (3 / 5)]) [0, 0] 0 [0] 1
     = Some (Inr ([0, 0], 0, [0], 1))"
  by code_simp

lemma fuel_17: "(17::nat) = Suc 16" "(16::nat) = Suc 15"
  by simp_all

text \<open>
  Without constraints the first iteration raises at the count of the binding
  constraints, before any line search.
\<close>

lemma grg_binding_without_constraints:
  "grg_binding g0 n_vars 0 0 tol = Inl (AttributeError ''int object has no attribute item'')"
  by (simp add: grg_binding_def binding_flags_def)

lemma grg_without_constraints:
  assumes "s_n_cstr st = 0" "s_n_ineq_cstr st = 0" "termination_tol st < 1"
    and "iter_lt 0 (max_iterations st)"
  shows "grg (Suc k) st N x_start = Some (Inl (AttributeError ''int object has no attribute item''))"
  using assms by (simp add: grg_def grg_binding_without_constraints split: prod.splits)

text \<open>
  Claim C7: the GRG driver reports \<open>success = False\<close> with the message
  \<^verbatim>\<open>Failed to converge to one or more constraint boundaries.\<close> exactly when the step size
  of the line search decays below \<open>termination_tol\<close> with no surviving candidate ever
  found. The line search makes the test \<^verbatim>\<open>len(x_search) == 1\<close> after \<open>x_search\<close> has
  become the transposed array, whose length is the number of design variables. In the
  sample problem, with two variables and one equality constraint, every candidate of all
  fifteen attempts is discarded; the line search returns the start with the code \<open>1\<close>,
  and the driver reports success by step tolerance.
\<close>

theorem grg_success_without_survivors:
  "grg_line_search 16 grg_settings
      (gn_eval_search_point warning_left [0, 0] [0] [True] [- (4 / 5), - (3 / 5)]) [0, 0] 0 [0] 1
     = Some (Inr ([0, 0], 0, [0], 1))
   \<and> grg 17 grg_settings warning_left [0, 0]
     = Some (Inr \<lparr>grg_f = 0, grg_x = [0, 0], grg_success = True,
                 grg_message = ''Step termination tolerance reached'', grg_iter = 1\<rparr>)"
proof
  show "grg_line_search 16 grg_settings
      (gn_eval_search_point warning_left [0, 0] [0] [True] [- (4 / 5), - (3 / 5)]) [0, 0] 0 [0] 1
     = Some (Inr ([0, 0], 0, [0], 1))"
    by (rule ls_warning)
  have 1: "grg 17 grg_settings warning_left [0, 0]
     = grg_loop 16 grg_settings warning_left (Suc (Suc 0)) 1 [0, 0] 0 [0] 0 (Some (0, [0, 0]))"
    unfolding grg_def fuel_17(1) grg_loop.simps
    using ls_warning
    by (simp add: grg_settings_def default_settings_def warning_left_def iter_lt_def
        eval_constr_def grg_binding_def binding_flags_def n_true_def vsub_def Let_def)
  show "grg 17 grg_settings warning_left [0, 0]
     = Some (Inr \<lparr>grg_f = 0, grg_x = [0, 0], grg_success = True,
                 grg_message = ''Step termination tolerance reached'', grg_iter = 1\<rparr>)"
    unfolding 1 fuel_17(2) grg_loop.simps
    by (simp add: grg_settings_def default_settings_def)
qed

end
